theory Spec2Isabelle
  imports Main "HOL-Library.Sublist" "HOL-Library.Multiset" "HOL-Library.AList"
begin

section \<open>Python string primitives used by app.py\<close>

text \<open>
  Strings are lists of characters with code points below 256. The handlers only compare,
  search and trim ASCII text; characters beyond Latin-1 are outside this model.
\<close>

definition isspace :: "char \<Rightarrow> bool" where
  \<comment> \<open>\<open>str.isspace\<close> on one character: TAB..CR, FS..US, space, NEL and NBSP.\<close>
  "isspace c =
     (let n = (of_char c :: nat)
      in (9 \<le> n \<and> n \<le> 13) \<or> (28 \<le> n \<and> n \<le> 32) \<or> n = 133 \<or> n = 160)"

definition strip :: "string \<Rightarrow> string" where
  \<comment> \<open>\<open>s.strip()\<close>: leading and trailing whitespace removed.\<close>
  "strip s = rev (dropWhile isspace (rev (dropWhile isspace s)))"

definition upper_char :: "char \<Rightarrow> string" where
  \<comment> \<open>\<open>c.upper()\<close> for one character: a..z and the Latin-1 small letters move down by 32,
      sharp s (223) becomes \<open>SS\<close>, every other character is kept. The micro sign (181)
      and y with diaeresis (255), whose upper case lies beyond code point 255, are kept
      too: replies with these two characters are outside the model.\<close>
  "upper_char c =
     (let n = (of_char c :: nat)
      in if 97 \<le> n \<and> n \<le> 122 then [char_of (n - 32)]
         else if 224 \<le> n \<and> n \<le> 254 \<and> n \<noteq> 247 then [char_of (n - 32)]
         else if n = 223 then ''SS''
         else [c])"

definition upper :: "string \<Rightarrow> string" where
  \<comment> \<open>\<open>s.upper()\<close>\<close>
  "upper s = concat (map upper_char s)"

fun contains :: "string \<Rightarrow> string \<Rightarrow> bool" where
  \<comment> \<open>\<open>sub in s\<close>: \<open>sub\<close> occurs in \<open>s\<close> as a contiguous substring.\<close>
  "contains sub [] = (sub = [])"
| "contains sub (c # cs) = (prefix sub (c # cs) \<or> contains sub cs)"

function replace :: "string \<Rightarrow> string \<Rightarrow> string \<Rightarrow> string" where
  \<comment> \<open>\<open>s.replace(old, new)\<close>: every non-overlapping occurrence, scanning from the left.
      With an empty \<open>old\<close>, Python puts \<open>new\<close> before every character and at the end.\<close>
  "replace [] old new = (if old = [] then new else [])"
| "replace (c # cs) old new =
     (if old = [] then new @ c # replace cs old new
      else if prefix old (c # cs) then new @ replace (drop (length old) (c # cs)) old new
      else c # replace cs old new)"
  by pat_completeness auto
termination
  by (relation "measure (\<lambda>(s, old, new). length s)") auto

fun split :: "string \<Rightarrow> char \<Rightarrow> string list" where
  \<comment> \<open>\<open>s.split(sep)\<close> for a one-character separator: cut at every occurrence.\<close>
  "split [] sep = [[]]"
| "split (c # cs) sep =
     (if c = sep then [] # split cs sep
      else (case split cs sep of p # ps \<Rightarrow> (c # p) # ps | [] \<Rightarrow> [[c]]))"

subsection \<open>int(...) and str(...) on integers\<close>

definition is_digit :: "char \<Rightarrow> bool" where
  "is_digit c = (let n = (of_char c :: nat) in 48 \<le> n \<and> n \<le> 57)"

definition digit_val :: "char \<Rightarrow> nat" where
  "digit_val c = of_char c - 48"

fun digits_acc :: "nat \<Rightarrow> string \<Rightarrow> nat option" where
  \<comment> \<open>The digits after the first one; a single underscore may stand between two digits.\<close>
  "digits_acc acc [] = Some acc"
| "digits_acc acc [c] = (if is_digit c then Some (10 * acc + digit_val c) else None)"
| "digits_acc acc (c # d # ds) =
     (if is_digit c then digits_acc (10 * acc + digit_val c) (d # ds)
      else if c = CHR ''_'' \<and> is_digit d then digits_acc (10 * acc + digit_val d) ds
      else None)"

definition py_digits :: "string \<Rightarrow> nat option" where
  "py_digits s =
     (case s of [] \<Rightarrow> None
      | c # cs \<Rightarrow> if is_digit c then digits_acc (digit_val c) cs else None)"

definition is_int_space :: "char \<Rightarrow> bool" where
  \<comment> \<open>The characters that \<open>int(s)\<close> skips at both ends: TAB..CR, space, NEL and NBSP
      (not FS..US, which \<open>str.strip\<close> removes but \<open>int\<close> rejects).\<close>
  "is_int_space c =
     (let n = (of_char c :: nat)
      in (9 \<le> n \<and> n \<le> 13) \<or> n = 32 \<or> n = 133 \<or> n = 160)"

definition py_int :: "string \<Rightarrow> int option" where
  \<comment> \<open>\<open>int(s)\<close> in base 10; \<open>None\<close> is the \<open>ValueError\<close>. Surrounding whitespace and one
      sign are accepted. The interpreter's configurable limit on the number of digits
      (4300 by default in recent versions) is not modelled.\<close>
  "py_int s =
     (case rev (dropWhile is_int_space (rev (dropWhile is_int_space s))) of [] \<Rightarrow> None
      | c # cs \<Rightarrow>
          if c = CHR ''-'' then map_option (\<lambda>n. - int n) (py_digits cs)
          else if c = CHR ''+'' then map_option int (py_digits cs)
          else map_option int (py_digits (c # cs)))"

definition digit_char :: "nat \<Rightarrow> char" where
  "digit_char d = char_of (48 + d)"

function str_nat :: "nat \<Rightarrow> string" where
  "str_nat n = (if n < 10 then [digit_char n] else str_nat (n div 10) @ [digit_char (n mod 10)])"
  by pat_completeness auto
termination
  by (relation "measure id") auto

declare str_nat.simps [simp del]

definition str_int :: "int \<Rightarrow> string" where
  \<comment> \<open>\<open>str(i)\<close> for a Python integer.\<close>
  "str_int i = (if i < 0 then CHR ''-'' # str_nat (nat (- i)) else str_nat (nat i))"

definition str_opt :: "string option \<Rightarrow> string" where
  \<comment> \<open>What an f-string shows for a request field: the text, or \<open>None\<close> when it is absent.\<close>
  "str_opt v = (case v of None \<Rightarrow> ''None'' | Some t \<Rightarrow> t)"

definition falsy :: "string option \<Rightarrow> bool" where
  \<comment> \<open>\<open>not v\<close> for a request field: absent (\<open>None\<close>) or the empty string.\<close>
  "falsy v = (case v of None \<Rightarrow> True | Some t \<Rightarrow> t = [])"

section \<open>Data model: the two tables and the image bucket\<close>

type_synonym bytes = "nat list"

record worker_row =
  wr_worker_id :: string
  wr_name :: string

record attendance_row =
  worker_id :: "string option"
  attendance_status :: string
  ppe_status :: string
  ppe_missing_items :: string
  ppe_image_url :: "string option"
  date :: string
  created_at :: nat

record state =
  workers :: "worker_row list"
  attendance :: "attendance_row list"
  ppe_images :: "(string \<times> bytes) list"

datatype error =
    AttributeError
  | IndexError
  | ValueError
  | Binascii_Error
  | Binascii_Invalid nat
  | Storage_Error string
  | Gemini_Error string
  | Database_Error string

fun str_error :: "error \<Rightarrow> string" where
  "str_error AttributeError =
     CHR 0x27 # ''NoneType'' @ CHR 0x27 # '' object has no attribute '' @
     CHR 0x27 # ''split'' @ [CHR 0x27]"
| "str_error IndexError = ''list index out of range''"
| "str_error ValueError = ''string argument should contain only ASCII characters''"
| "str_error Binascii_Error = ''Incorrect padding''"
| "str_error (Binascii_Invalid n) =
     ''Invalid base64-encoded string: number of data characters ('' @ str_int (int n) @
     '') cannot be 1 more than a multiple of 4''"
| "str_error (Storage_Error m) = m"
| "str_error (Gemini_Error m) = m"
| "str_error (Database_Error m) = m"

subsection \<open>The library decoder base64.b64decode\<close>

text \<open>
  \<open>base64.b64decode(s)\<close> with its default \<open>validate=False\<close>, as CPython's
  \<open>binascii.a2b_base64\<close> computes it: a text with a character beyond ASCII is refused;
  characters outside the base64 alphabet are skipped; a pad sign ends the input once it
  completes a group of four; what is left over at the end of the input is an error.
\<close>

definition b64_value :: "char \<Rightarrow> nat option" where
  \<comment> \<open>The six-bit value of a character of the alphabet A..Z a..z 0..9 + /.\<close>
  "b64_value c =
     (let n = (of_char c :: nat)
      in if 65 \<le> n \<and> n \<le> 90 then Some (n - 65)
         else if 97 \<le> n \<and> n \<le> 122 then Some (n - 71)
         else if 48 \<le> n \<and> n \<le> 57 then Some (n + 4)
         else if n = 43 then Some 62
         else if n = 47 then Some 63
         else None)"

fun a2b_base64 :: "nat \<Rightarrow> nat \<Rightarrow> nat \<Rightarrow> bytes \<Rightarrow> string \<Rightarrow> error + bytes" where
  \<comment> \<open>The decoding loop, with its variables \<open>quad_pos\<close>, \<open>leftchar\<close> and \<open>pads\<close> and the
      bytes written so far.\<close>
  "a2b_base64 quad_pos leftchar pads out [] =
     (if quad_pos = 0 then Inr out
      else if quad_pos = 1 then Inl (Binascii_Invalid (length out div 3 * 4 + 1))
      else Inl Binascii_Error)"
| "a2b_base64 quad_pos leftchar pads out (c # cs) =
     (if c = CHR ''='' then
        (if 2 \<le> quad_pos \<and> 4 \<le> quad_pos + (pads + 1) then Inr out
         else a2b_base64 quad_pos leftchar (if 2 \<le> quad_pos then pads + 1 else pads) out cs)
      else
        (case b64_value c of
           None \<Rightarrow> a2b_base64 quad_pos leftchar pads out cs
         | Some v \<Rightarrow>
             if quad_pos = 0 then a2b_base64 1 v 0 out cs
             else if quad_pos = 1
             then a2b_base64 2 (v mod 16) 0 (out @ [leftchar * 4 + v div 16]) cs
             else if quad_pos = 2
             then a2b_base64 3 (v mod 4) 0 (out @ [leftchar * 16 + v div 4]) cs
             else a2b_base64 0 0 0 (out @ [leftchar * 64 + v]) cs))"

definition is_ascii :: "char \<Rightarrow> bool" where
  "is_ascii c = ((of_char c :: nat) < 128)"

definition py_b64decode :: "string \<Rightarrow> error + bytes" where
  "py_b64decode t =
     (if list_all is_ascii t then a2b_base64 0 0 0 [] t else Inl ValueError)"

datatype jval = JNull | JStr string | JInt int

type_synonym response = "(string \<times> jval) list \<times> nat"

text \<open>
  Everything a handler obtains from outside the process during one request: the library
  decoder, the clock, the random identifier, whether each call to the object store, the
  classifier or the database raises, and the rank \<open>tie_order\<close> by which the database
  happens to return rows of equal \<open>created_at\<close>, an order it does not promise.
\<close>

record env =
  b64decode :: "string \<Rightarrow> error + bytes"
  uuid4 :: string
  today :: string
  now :: nat
  upload_raises :: "error option"
  remove_raises :: "error option"
  generate_content :: "error + string option"
  attendance_insert_raises :: "error option"
  attendance_select_raises :: "error option"
  tie_order :: "attendance_row \<Rightarrow> nat"
  workers_select_raises :: "error option"
  workers_insert_raises :: "error option"

definition storage_upload :: "env \<Rightarrow> string \<Rightarrow> bytes \<Rightarrow> state \<Rightarrow> error + state" where
  "storage_upload e path file s =
     (case upload_raises e of
        Some err \<Rightarrow> Inl err
      | None \<Rightarrow> Inr (s\<lparr>ppe_images := ppe_images s @ [(path, file)]\<rparr>))"

definition storage_remove :: "env \<Rightarrow> string list \<Rightarrow> state \<Rightarrow> error + state" where
  "storage_remove e paths s =
     (case remove_raises e of
        Some err \<Rightarrow> Inl err
      | None \<Rightarrow> Inr (s\<lparr>ppe_images := filter (\<lambda>(p, f). p \<notin> set paths) (ppe_images s)\<rparr>))"

definition attendance_insert ::
  "env \<Rightarrow> string option \<Rightarrow> string \<Rightarrow> string \<Rightarrow> string \<Rightarrow> string \<Rightarrow> state \<Rightarrow> error + state" where
  \<comment> \<open>The inserted row always has \<open>ppe_image_url = None\<close>; the store assigns \<open>created_at\<close>.\<close>
  "attendance_insert e wid status ppe missing d s =
     (case attendance_insert_raises e of
        Some err \<Rightarrow> Inl err
      | None \<Rightarrow>
          Inr (s\<lparr>attendance := attendance s @
            [\<lparr>worker_id = wid, attendance_status = status, ppe_status = ppe,
              ppe_missing_items = missing, ppe_image_url = None, date = d,
              created_at = now e\<rparr>]\<rparr>))"

definition workers_select_eq :: "env \<Rightarrow> string option \<Rightarrow> state \<Rightarrow> error + worker_row list" where
  \<comment> \<open>\<open>table("workers").select("name").eq("worker_id", worker_id)\<close>\<close>
  "workers_select_eq e wid s =
     (case workers_select_raises e of
        Some err \<Rightarrow> Inl err
      | None \<Rightarrow> Inr (filter (\<lambda>w. Some (wr_worker_id w) = wid) (workers s)))"

definition error_response :: "error \<Rightarrow> response" where
  "error_response err = ([(''status'', JStr ''ERROR''), (''message'', JStr (str_error err))], 500)"

definition error_only_response :: "error \<Rightarrow> response" where
  "error_only_response err = ([(''error'', JStr (str_error err))], 500)"

section \<open>The handlers\<close>

definition precheck :: "env \<Rightarrow> string option \<Rightarrow> state \<Rightarrow> response \<times> state" where
  "precheck e wid s =
     (if falsy wid
      then (([(''status'', JStr ''ERROR''), (''message'', JStr ''Worker ID required'')], 400), s)
      else (case workers_select_eq e wid s of
              Inl err \<Rightarrow> (error_response err, s)
            | Inr [] \<Rightarrow>
                (([(''status'', JStr ''NOT_FOUND''), (''message'', JStr ''ID not registered'')], 404), s)
            | Inr (w # _) \<Rightarrow>
                (([(''status'', JStr ''SUCCESS''), (''worker_name'', JStr (wr_name w))], 200), s)))"

definition verify_ppe_with_gemini :: "env \<Rightarrow> string \<Rightarrow> string" where
  "verify_ppe_with_gemini e image_base64 =
     (case generate_content e of
        Inl err \<Rightarrow> ''ERROR_GEMINI''
      | Inr text \<Rightarrow> upper (strip (case text of None \<Rightarrow> [] | Some t \<Rightarrow> t)))"

definition image_payload :: "string option \<Rightarrow> error + string" where
  \<comment> \<open>\<open>image_data.split(",")[1]\<close>\<close>
  "image_payload image_data =
     (case image_data of
        None \<Rightarrow> Inl AttributeError
      | Some t \<Rightarrow>
          (case split t (CHR '','') of
             _ # raw_b64 # _ \<Rightarrow> Inr raw_b64
           | _ \<Rightarrow> Inl IndexError))"

definition verify :: "env \<Rightarrow> string option \<Rightarrow> string option \<Rightarrow> state \<Rightarrow> response \<times> state" where
  "verify e wid image_data s =
     (case image_payload image_data of
        Inl err \<Rightarrow> (error_response err, s)
      | Inr raw_b64 \<Rightarrow>
     (case b64decode e raw_b64 of
        Inl err \<Rightarrow> (error_response err, s)
      | Inr image_bytes \<Rightarrow>
     (let file_name = ''auto_'' @ str_opt wid @ ''_'' @ uuid4 e @ ''.jpg'' in
     (case storage_upload e file_name image_bytes s of
        Inl err \<Rightarrow> (error_response err, s)
      | Inr s1 \<Rightarrow>
     (let ai_result = verify_ppe_with_gemini e raw_b64 in
     (case storage_remove e [file_name] s1 of
        Inl err \<Rightarrow> (error_response err, s1)
      | Inr s2 \<Rightarrow>
     (if contains ''NO_WORKER'' ai_result
      then (([(''status'', JStr ''RETRY''), (''message'', JStr ''Worker not detected'')], 200), s2)
      else
     (let status = (if contains ''PPE_OK'' ai_result then ''PRESENT'' else ''ABSENT'');
          missing = (if status = ''ABSENT''
                     then strip (replace ai_result ''PPE_MISSING:'' [])
                     else [])
      in
     (case attendance_insert e wid status
             (if status = ''PRESENT'' then ''PASSED'' else ''FAILED'') missing (today e) s2 of
        Inl err \<Rightarrow> (error_response err, s2)
      | Inr s3 \<Rightarrow>
     (case workers_select_eq e wid s3 of
        Inl err \<Rightarrow> (error_response err, s3)
      | Inr data \<Rightarrow>
          (([(''status'', JStr status),
             (''worker_name'', JStr (case data of [] \<Rightarrow> ''Worker'' | w # _ \<Rightarrow> wr_name w)),
             (''missing'', JStr missing)], 200), s3)))))))))))"

definition manual_upload :: "env \<Rightarrow> string option \<Rightarrow> string option \<Rightarrow> state \<Rightarrow> response \<times> state" where
  "manual_upload e wid image_data s =
     (case image_payload image_data of
        Inl err \<Rightarrow> (error_response err, s)
      | Inr raw_b64 \<Rightarrow>
     (case b64decode e raw_b64 of
        Inl err \<Rightarrow> (error_response err, s)
      | Inr image_bytes \<Rightarrow>
     (let file_name = ''manual_'' @ str_opt wid @ ''_'' @ uuid4 e @ ''.jpg'' in
     (case storage_upload e file_name image_bytes s of
        Inl err \<Rightarrow> (error_response err, s)
      | Inr s1 \<Rightarrow>
     (case attendance_insert e wid ''PRESENT'' ''MANUAL_VERIFIED''
             ''Manual Override Confirmed'' (today e) s1 of
        Inl err \<Rightarrow> (error_response err, s1)
      | Inr s2 \<Rightarrow>
     (case storage_remove e [file_name] s2 of
        Inl err \<Rightarrow> (error_response err, s2)
      | Inr s3 \<Rightarrow> (([(''status'', JStr ''SUCCESS'')], 200), s3)))))))"

definition manual_mark ::
  "env \<Rightarrow> string option \<Rightarrow> string option \<Rightarrow> string option \<Rightarrow> state \<Rightarrow> response \<times> state" where
  \<comment> \<open>\<open>status\<close> and \<open>date\<close> are the optional request fields with their defaults.\<close>
  "manual_mark e wid status_field date_field s =
     (let status = (case status_field of None \<Rightarrow> ''PRESENT'' | Some t \<Rightarrow> t);
          date_str = (case date_field of None \<Rightarrow> today e | Some d \<Rightarrow> d)
      in
     (case attendance_insert e wid status ''ADMIN_OVERRIDE''
             (''Marked '' @ status @ '' by Admin'') date_str s of
        Inl err \<Rightarrow> (error_only_response err, s)
      | Inr s1 \<Rightarrow> (([(''status'', JStr ''SUCCESS'')], 200), s1)))"

subsection \<open>Daily statistics\<close>

definition attendance_select_date :: "env \<Rightarrow> string \<Rightarrow> state \<Rightarrow> error + attendance_row list" where
  \<comment> \<open>\<open>table("attendance").select(...).eq("date", target_date).order("created_at")\<close>:
      the rows of that date, ascending by \<open>created_at\<close>. The query orders by nothing
      else, so rows with equal timestamps come in whatever order the database picks: here
      by the environment's \<open>tie_order\<close> (the outer sort is stable).\<close>
  "attendance_select_date e target_date s =
     (case attendance_select_raises e of
        Some err \<Rightarrow> Inl err
      | None \<Rightarrow>
          Inr (sort_key created_at
                 (sort_key (tie_order e) (filter (\<lambda>r. date r = target_date) (attendance s)))))"

definition workers_count :: "env \<Rightarrow> state \<Rightarrow> error + nat" where
  \<comment> \<open>\<open>table("workers").select("id", count="exact").execute().count\<close>\<close>
  "workers_count e s =
     (case workers_select_raises e of
        Some err \<Rightarrow> Inl err
      | None \<Rightarrow> Inr (length (workers s)))"

fun latest_status_map ::
  "attendance_row list \<Rightarrow> (string option \<times> string) list \<Rightarrow> (string option \<times> string) list" where
  \<comment> \<open>The loop \<open>for l in logs.data: latest_status_map[l['worker_id']] = l['attendance_status']\<close>
      on a dictionary that keeps its keys in insertion order.\<close>
  "latest_status_map [] m = m"
| "latest_status_map (l # ls) m =
     latest_status_map ls (AList.update (worker_id l) (attendance_status l) m)"

definition count_status :: "string \<Rightarrow> (string option \<times> string) list \<Rightarrow> nat" where
  \<comment> \<open>\<open>sum(1 for status in latest_status_map.values() if status == st)\<close>\<close>
  "count_status st m = length (filter (\<lambda>status. status = st) (map snd m))"

definition get_stats :: "env \<Rightarrow> string option \<Rightarrow> state \<Rightarrow> response \<times> state" where
  "get_stats e date_arg s =
     (let target_date = (case date_arg of None \<Rightarrow> today e | Some d \<Rightarrow> d) in
     (case attendance_select_date e target_date s of
        Inl err \<Rightarrow> (error_only_response err, s)
      | Inr logs \<Rightarrow>
     (let m = latest_status_map logs [];
          present_count = count_status ''PRESENT'' m;
          absent_count = count_status ''ABSENT'' m
      in
     (case workers_count e s of
        Inl err \<Rightarrow> (error_only_response err, s)
      | Inr total_workers_in_db \<Rightarrow>
          (([(''present'', JInt (int present_count)),
             (''absent'', JInt (int absent_count)),
             (''total_workers'', JInt (int total_workers_in_db)),
             (''date'', JStr target_date)], 200), s)))))"

subsection \<open>Worker registration\<close>

fun collect_ids :: "worker_row list \<Rightarrow> int list \<Rightarrow> int list" where
  \<comment> \<open>The loop that appends \<open>int(item['worker_id'])\<close> and skips an item whose id does not parse.\<close>
  "collect_ids [] ids = ids"
| "collect_ids (item # items) ids =
     (case py_int (wr_worker_id item) of
        Some i \<Rightarrow> collect_ids items (ids @ [i])
      | None \<Rightarrow> collect_ids items ids)"

fun max_list :: "int list \<Rightarrow> int" where
  \<comment> \<open>\<open>max(ids)\<close> on a non-empty list (the source only calls it on one).\<close>
  "max_list [] = 0"
| "max_list (x # xs) = fold max xs x"

definition next_id :: "worker_row list \<Rightarrow> int" where
  "next_id data =
     (if data \<noteq> []
      then (let ids = collect_ids data [] in if ids \<noteq> [] then max_list ids + 1 else 1001)
      else 1001)"

definition workers_select_all :: "env \<Rightarrow> state \<Rightarrow> error + worker_row list" where
  "workers_select_all e s =
     (case workers_select_raises e of Some err \<Rightarrow> Inl err | None \<Rightarrow> Inr (workers s))"

definition workers_insert :: "env \<Rightarrow> string \<Rightarrow> string \<Rightarrow> state \<Rightarrow> error + state" where
  "workers_insert e wid nm s =
     (case workers_insert_raises e of
        Some err \<Rightarrow> Inl err
      | None \<Rightarrow> Inr (s\<lparr>workers := workers s @ [\<lparr>wr_worker_id = wid, wr_name = nm\<rparr>]\<rparr>))"

definition add_worker :: "env \<Rightarrow> string option \<Rightarrow> state \<Rightarrow> response \<times> state" where
  "add_worker e name_field s =
     (case name_field of
        None \<Rightarrow> (([(''error'', JStr ''Name is required'')], 400), s)
      | Some nm \<Rightarrow>
     (if nm = [] then (([(''error'', JStr ''Name is required'')], 400), s)
      else
     (case workers_select_all e s of
        Inl err \<Rightarrow> (error_only_response err, s)
      | Inr data \<Rightarrow>
     (case workers_insert e (str_int (next_id data)) nm s of
        Inl err \<Rightarrow> (error_only_response err, s)
      | Inr s1 \<Rightarrow>
          (([(''status'', JStr ''ok''), (''worker_id'', JStr (str_int (next_id data)))], 200), s1)))))"

fun register_all :: "env \<Rightarrow> string list \<Rightarrow> state \<Rightarrow> response list \<times> state" where
  \<comment> \<open>One \<open>POST /api/workers\<close> request per name, in order.\<close>
  "register_all e [] s = ([], s)"
| "register_all e (nm # nms) s =
     (let (r, s1) = add_worker e (Some nm) s;
          (rs, s2) = register_all e nms s1
      in (r # rs, s2))"

subsection \<open>An environment in which no external call raises\<close>

definition env_ok :: env where
  \<comment> \<open>The decoder is the library's; the classifier answers \<open>ppe_ok\<close>.\<close>
  "env_ok =
     \<lparr>b64decode = py_b64decode,
      uuid4 = ''u1'', today = ''2026-01-15'', now = 7,
      upload_raises = None, remove_raises = None,
      generate_content = Inr (Some ''ppe_ok''),
      attendance_insert_raises = None, attendance_select_raises = None,
      tie_order = (\<lambda>r. 0),
      workers_select_raises = None, workers_insert_raises = None\<rparr>"

definition state_empty :: state where
  "state_empty = \<lparr>workers = [], attendance = [], ppe_images = []\<rparr>"

section \<open>Notions of the specification\<close>

definition removeprefix :: "string \<Rightarrow> string \<Rightarrow> string" where
  \<comment> \<open>A prefix stripped: the text after \<open>p\<close> when the text starts with \<open>p\<close>, else the text.\<close>
  "removeprefix p t = (if prefix p t then drop (length p) t else t)"

definition spec_missing_items :: "string \<Rightarrow> string" where
  \<comment> \<open>The specification's missing-items text: the reply with the \<open>PPE_MISSING:\<close> prefix
      stripped, trimmed.\<close>
  "spec_missing_items reply = strip (removeprefix ''PPE_MISSING:'' reply)"

definition spec_image_payload :: "string \<Rightarrow> string option" where
  \<comment> \<open>The specification's payload of a data URL: everything after the first comma.\<close>
  "spec_image_payload t =
     (if CHR '','' \<in> set t then Some (tl (dropWhile (\<lambda>c. c \<noteq> CHR '','') t)) else None)"

definition is_b64_char :: "char \<Rightarrow> bool" where
  "is_b64_char c = (b64_value c \<noteq> None)"

definition spec_valid_base64 :: "string \<Rightarrow> bool" where
  \<comment> \<open>Valid base64 (RFC 4648): groups of four characters of the alphabet, the last group
      possibly ending in one or two pad signs.\<close>
  "spec_valid_base64 t =
     (length t mod 4 = 0 \<and>
      list_all is_b64_char (takeWhile (\<lambda>c. c \<noteq> CHR ''='') t) \<and>
      list_all (\<lambda>c. c = CHR ''='') (dropWhile (\<lambda>c. c \<noteq> CHR ''='') t) \<and>
      length (dropWhile (\<lambda>c. c \<noteq> CHR ''='') t) \<le> 2)"

definition missing_only_when_absent :: "attendance_row \<Rightarrow> bool" where
  "missing_only_when_absent r = (ppe_missing_items r \<noteq> [] \<longrightarrow> attendance_status r = ''ABSENT'')"

definition rows_of :: "string option \<Rightarrow> attendance_row list \<Rightarrow> attendance_row list" where
  \<comment> \<open>The rows of one worker, in the order of the list.\<close>
  "rows_of w logs = filter (\<lambda>l. worker_id l = w) logs"

definition parsed_ids :: "worker_row list \<Rightarrow> int set" where
  \<comment> \<open>The integers that the existing worker ids parse to.\<close>
  "parsed_ids data = set (List.map_filter (\<lambda>w. py_int (wr_worker_id w)) data)"

definition status_of :: "response \<Rightarrow> jval option" where
  "status_of r = map_of (fst r) ''status''"

subsection \<open>Sample tables\<close>

definition sample_row :: "string \<Rightarrow> string \<Rightarrow> string \<Rightarrow> nat \<Rightarrow> attendance_row" where
  \<comment> \<open>A row as \<open>verify\<close> writes it, for the sample tables below.\<close>
  "sample_row wid status d t =
     \<lparr>worker_id = Some wid, attendance_status = status,
      ppe_status = (if status = ''PRESENT'' then ''PASSED'' else ''FAILED''),
      ppe_missing_items = (if status = ''PRESENT'' then [] else ''[VEST]''),
      ppe_image_url = None, date = d, created_at = t\<rparr>"

definition state_day :: state where
  "state_day =
     \<lparr>workers = [\<lparr>wr_worker_id = ''1001'', wr_name = ''Asha''\<rparr>],
      attendance =
        [sample_row ''1001'' ''ABSENT'' ''2026-01-15'' 5,
         sample_row ''1001'' ''PRESENT'' ''2026-01-15'' 2,
         sample_row ''1002'' ''PRESENT'' ''2026-01-15'' 4,
         sample_row ''1001'' ''PRESENT'' ''2026-01-16'' 9],
      ppe_images = []\<rparr>"

definition state_one :: state where
  "state_one =
     \<lparr>workers = [\<lparr>wr_worker_id = ''1001'', wr_name = ''Asha''\<rparr>],
      attendance = [sample_row ''1001'' ''PRESENT'' ''2026-01-15'' 3],
      ppe_images = []\<rparr>"

definition workers_mixed :: "worker_row list" where
  \<comment> \<open>A workers table with one id that does not parse as an integer.\<close>
  "workers_mixed =
     [\<lparr>wr_worker_id = ''1001'', wr_name = ''Asha''\<rparr>,
      \<lparr>wr_worker_id = ''abc'', wr_name = ''Ravi''\<rparr>,
      \<lparr>wr_worker_id = ''1005'', wr_name = ''Meena''\<rparr>]"

section \<open>Auxiliary facts\<close>

lemmas external_defs =
  storage_upload_def storage_remove_def attendance_insert_def workers_select_eq_def

lemma replace_absent: "old \<noteq> [] \<Longrightarrow> \<not> contains old t \<Longrightarrow> replace t old new = t"
  by (induction t) auto

lemma replace_prefix: "old \<noteq> [] \<Longrightarrow> replace (old @ t) old new = new @ replace t old new"
  by (cases old) auto

lemma contains_prefix: "prefix p t \<Longrightarrow> contains p t"
  by (cases t) auto

lemma sentinel_facts:
  "\<not> contains ''NO_WORKER'' ''ERROR_GEMINI''"
  "\<not> contains ''PPE_OK'' ''ERROR_GEMINI''"
  "strip (replace ''ERROR_GEMINI'' ''PPE_MISSING:'' []) = ''ERROR_GEMINI''"
  "strip ''ERROR_GEMINI'' = ''ERROR_GEMINI''"
  by code_simp+

lemma sample_payload: "image_payload (Some ''data:image/jpeg;base64,QUJD'') = Inr ''QUJD''"
  by code_simp

lemma decode_QUJD: "py_b64decode ''QUJD'' = Inr [65, 66, 67]"
  by code_simp

lemma sample_decode: "b64decode (env_ok\<lparr>generate_content := g\<rparr>) ''QUJD'' = Inr [65, 66, 67]"
  by (simp add: env_ok_def decode_QUJD)

lemma sample_flags:
  "upload_raises (env_ok\<lparr>generate_content := g\<rparr>) = None"
  "remove_raises (env_ok\<lparr>generate_content := g\<rparr>) = None"
  "attendance_insert_raises (env_ok\<lparr>generate_content := g\<rparr>) = None"
  "attendance_select_raises (env_ok\<lparr>generate_content := g\<rparr>) = None"
  "workers_select_raises (env_ok\<lparr>generate_content := g\<rparr>) = None"
  "workers_insert_raises (env_ok\<lparr>generate_content := g\<rparr>) = None"
  by (simp_all add: env_ok_def)

lemma verify_attendance_cases:
  "attendance (snd (verify e wid img s)) = attendance s \<or>
   attendance (snd (verify e wid img s)) = attendance s @
     [\<lparr>worker_id = wid, attendance_status = ''PRESENT'', ppe_status = ''PASSED'',
       ppe_missing_items = [], ppe_image_url = None, date = today e, created_at = now e\<rparr>] \<or>
   (\<exists>m. attendance (snd (verify e wid img s)) = attendance s @
     [\<lparr>worker_id = wid, attendance_status = ''ABSENT'', ppe_status = ''FAILED'',
       ppe_missing_items = m, ppe_image_url = None, date = today e, created_at = now e\<rparr>])"
  by (auto simp add: verify_def external_defs Let_def split: sum.splits option.splits)

lemma manual_upload_attendance_cases:
  "attendance (snd (manual_upload e wid img s)) = attendance s \<or>
   attendance (snd (manual_upload e wid img s)) = attendance s @
     [\<lparr>worker_id = wid, attendance_status = ''PRESENT'', ppe_status = ''MANUAL_VERIFIED'',
       ppe_missing_items = ''Manual Override Confirmed'', ppe_image_url = None,
       date = today e, created_at = now e\<rparr>]"
  by (auto simp add: manual_upload_def external_defs Let_def split: sum.splits option.splits)

lemma manual_mark_attendance_cases:
  "attendance (snd (manual_mark e wid st d s)) = attendance s \<or>
   attendance (snd (manual_mark e wid st d s)) = attendance s @
     [\<lparr>worker_id = wid,
       attendance_status = (case st of None \<Rightarrow> ''PRESENT'' | Some t \<Rightarrow> t),
       ppe_status = ''ADMIN_OVERRIDE'',
       ppe_missing_items = ''Marked '' @ (case st of None \<Rightarrow> ''PRESENT'' | Some t \<Rightarrow> t) @ '' by Admin'',
       ppe_image_url = None,
       date = (case d of None \<Rightarrow> today e | Some x \<Rightarrow> x), created_at = now e\<rparr>]"
  by (auto simp add: manual_mark_def external_defs Let_def split: sum.splits option.splits)

section \<open>Classification of the classifier's reply (C1)\<close>

text \<open>
  C1, as the code has it. When the image decodes and no external call raises, \<open>verify\<close>
  classifies the reply \<open>r\<close> of the classifier in this order: a reply containing
  \<open>NO_WORKER\<close> gives status RETRY and leaves the attendance table as it was; otherwise a
  reply containing \<open>PPE_OK\<close> appends exactly one row PRESENT / PASSED with empty
  \<open>ppe_missing_items\<close>; otherwise exactly one row ABSENT / FAILED is appended whose
  \<open>ppe_missing_items\<close> is the reply with every occurrence of \<open>PPE_MISSING:\<close> removed
  (\<open>str.replace\<close>), then trimmed. This is the prefix-stripped reply whenever
  \<open>PPE_MISSING:\<close> occurs nowhere in the reply, or only as its prefix.
\<close>

theorem verify_classifies_reply:
  assumes "image_payload image_data = Inr raw_b64"
    and "b64decode e raw_b64 = Inr image_bytes"
    and "upload_raises e = None" and "remove_raises e = None"
    and "attendance_insert_raises e = None" and "workers_select_raises e = None"
  shows "(let r = verify_ppe_with_gemini e raw_b64;
              res = verify e wid image_data s
          in if contains ''NO_WORKER'' r
             then status_of (fst res) = Some (JStr ''RETRY'') \<and>
                  attendance (snd res) = attendance s
             else if contains ''PPE_OK'' r
             then status_of (fst res) = Some (JStr ''PRESENT'') \<and>
                  attendance (snd res) = attendance s @
                    [\<lparr>worker_id = wid, attendance_status = ''PRESENT'', ppe_status = ''PASSED'',
                      ppe_missing_items = [], ppe_image_url = None, date = today e,
                      created_at = now e\<rparr>]
             else status_of (fst res) = Some (JStr ''ABSENT'') \<and>
                  attendance (snd res) = attendance s @
                    [\<lparr>worker_id = wid, attendance_status = ''ABSENT'', ppe_status = ''FAILED'',
                      ppe_missing_items = strip (replace r ''PPE_MISSING:'' []),
                      ppe_image_url = None, date = today e, created_at = now e\<rparr>])
         \<and> (\<not> contains ''PPE_MISSING:'' rest \<longrightarrow>
              strip (replace (''PPE_MISSING:'' @ rest) ''PPE_MISSING:'' []) =
              spec_missing_items (''PPE_MISSING:'' @ rest))
         \<and> (\<not> contains ''PPE_MISSING:'' r' \<longrightarrow>
              strip (replace r' ''PPE_MISSING:'' []) = spec_missing_items r')"
proof -
  have run: "(let r = verify_ppe_with_gemini e raw_b64;
              res = verify e wid image_data s
          in if contains ''NO_WORKER'' r
             then status_of (fst res) = Some (JStr ''RETRY'') \<and>
                  attendance (snd res) = attendance s
             else if contains ''PPE_OK'' r
             then status_of (fst res) = Some (JStr ''PRESENT'') \<and>
                  attendance (snd res) = attendance s @
                    [\<lparr>worker_id = wid, attendance_status = ''PRESENT'', ppe_status = ''PASSED'',
                      ppe_missing_items = [], ppe_image_url = None, date = today e,
                      created_at = now e\<rparr>]
             else status_of (fst res) = Some (JStr ''ABSENT'') \<and>
                  attendance (snd res) = attendance s @
                    [\<lparr>worker_id = wid, attendance_status = ''ABSENT'', ppe_status = ''FAILED'',
                      ppe_missing_items = strip (replace r ''PPE_MISSING:'' []),
                      ppe_image_url = None, date = today e, created_at = now e\<rparr>])"
    using assms by (simp add: verify_def external_defs Let_def status_of_def)
  have pre: "\<not> contains ''PPE_MISSING:'' rest \<longrightarrow>
      strip (replace (''PPE_MISSING:'' @ rest) ''PPE_MISSING:'' []) =
      spec_missing_items (''PPE_MISSING:'' @ rest)"
    using replace_prefix [of "''PPE_MISSING:''" rest "[]"]
      replace_absent [of "''PPE_MISSING:''" rest "[]"]
    by (simp add: spec_missing_items_def removeprefix_def)
  have none: "\<not> contains ''PPE_MISSING:'' r' \<longrightarrow>
      strip (replace r' ''PPE_MISSING:'' []) = spec_missing_items r'"
    using replace_absent [of "''PPE_MISSING:''" r' "[]"] contains_prefix [of "''PPE_MISSING:''" r']
    by (auto simp add: spec_missing_items_def removeprefix_def)
  from run pre none show ?thesis by blast
qed

text \<open>The theorem at the reply \<open>PPE_MISSING: [VEST]\<close>: one ABSENT row with \<open>[VEST]\<close>.\<close>

theorem verify_classifies_reply_witness:
  "image_payload (Some ''data:image/jpeg;base64,QUJD'') = Inr ''QUJD'' \<and>
   b64decode (env_ok\<lparr>generate_content := Inr (Some ''PPE_MISSING: [VEST]'')\<rparr>) ''QUJD''
     = Inr [65, 66, 67] \<and>
   upload_raises (env_ok\<lparr>generate_content := Inr (Some ''PPE_MISSING: [VEST]'')\<rparr>) = None \<and>
   remove_raises (env_ok\<lparr>generate_content := Inr (Some ''PPE_MISSING: [VEST]'')\<rparr>) = None \<and>
   attendance_insert_raises (env_ok\<lparr>generate_content := Inr (Some ''PPE_MISSING: [VEST]'')\<rparr>)
     = None \<and>
   workers_select_raises (env_ok\<lparr>generate_content := Inr (Some ''PPE_MISSING: [VEST]'')\<rparr>)
     = None \<and>
   attendance (snd (verify (env_ok\<lparr>generate_content := Inr (Some ''PPE_MISSING: [VEST]'')\<rparr>)
     (Some ''1001'') (Some ''data:image/jpeg;base64,QUJD'') state_empty)) =
     [\<lparr>worker_id = Some ''1001'', attendance_status = ''ABSENT'', ppe_status = ''FAILED'',
       ppe_missing_items = ''[VEST]'', ppe_image_url = None, date = ''2026-01-15'',
       created_at = 7\<rparr>]"
proof -
  let ?e = "env_ok\<lparr>generate_content := Inr (Some ''PPE_MISSING: [VEST]'')\<rparr>"
  have r: "verify_ppe_with_gemini ?e ''QUJD'' = ''PPE_MISSING: [VEST]''"
    by code_simp
  have c: "\<not> contains ''NO_WORKER'' ''PPE_MISSING: [VEST]''"
    "\<not> contains ''PPE_OK'' ''PPE_MISSING: [VEST]''"
    "strip (replace ''PPE_MISSING: [VEST]'' ''PPE_MISSING:'' []) = ''[VEST]''"
    by code_simp+
  have v: "today ?e = ''2026-01-15''" "now ?e = 7" "attendance state_empty = []"
    by (simp_all add: env_ok_def state_empty_def)
  from verify_classifies_reply [OF sample_payload sample_decode sample_flags(1,2,3,5),
      of "Inr (Some ''PPE_MISSING: [VEST]'')" "Some ''1001''" state_empty]
  have "attendance (snd (verify ?e (Some ''1001'') (Some ''data:image/jpeg;base64,QUJD'')
      state_empty)) =
     [\<lparr>worker_id = Some ''1001'', attendance_status = ''ABSENT'', ppe_status = ''FAILED'',
       ppe_missing_items = ''[VEST]'', ppe_image_url = None, date = ''2026-01-15'',
       created_at = 7\<rparr>]"
    unfolding Let_def r by (simp only: c v if_False append_Nil)
  then show ?thesis
    using sample_payload sample_decode sample_flags by simp
qed

text \<open>
  The claim as stated, with the prefix stripped, fails: on a reply in which
  \<open>PPE_MISSING:\<close> occurs twice the code removes both occurrences.
\<close>

theorem verify_missing_items_not_prefix_stripped:
  "attendance (snd (verify
      (env_ok\<lparr>generate_content := Inr (Some ''PPE_MISSING: [VEST] PPE_MISSING: [BOOTS]'')\<rparr>)
      (Some ''1001'') (Some ''data:image/jpeg;base64,QUJD'') state_empty)) =
     [\<lparr>worker_id = Some ''1001'', attendance_status = ''ABSENT'', ppe_status = ''FAILED'',
       ppe_missing_items = ''[VEST]  [BOOTS]'', ppe_image_url = None, date = ''2026-01-15'',
       created_at = 7\<rparr>] \<and>
   spec_missing_items ''PPE_MISSING: [VEST] PPE_MISSING: [BOOTS]'' =
     ''[VEST] PPE_MISSING: [BOOTS]''"
  by code_simp

section \<open>Missing items and the attendance status (C2)\<close>

text \<open>
  C2, as the code has it. Automatic verification keeps the invariant: if every stored
  row has a non-empty \<open>ppe_missing_items\<close> only with status ABSENT, so has every row
  after \<open>verify\<close>, whatever the external calls do. The two manual paths are outside the
  invariant by construction: \<open>manual_upload\<close> inserts nothing or one row PRESENT /
  MANUAL_VERIFIED with the text \<open>Manual Override Confirmed\<close>, and \<open>manual_mark\<close>
  inserts nothing or one row ADMIN_OVERRIDE with the text \<open>Marked <status> by Admin\<close>,
  for the requested status (PRESENT by default).
\<close>

theorem verify_keeps_missing_only_when_absent:
  "(list_all missing_only_when_absent (attendance s) \<longrightarrow>
      list_all missing_only_when_absent (attendance (snd (verify e wid img s)))) \<and>
   (attendance (snd (manual_upload e wid img s)) = attendance s \<or>
    attendance (snd (manual_upload e wid img s)) = attendance s @
      [\<lparr>worker_id = wid, attendance_status = ''PRESENT'', ppe_status = ''MANUAL_VERIFIED'',
        ppe_missing_items = ''Manual Override Confirmed'', ppe_image_url = None,
        date = today e, created_at = now e\<rparr>]) \<and>
   (attendance (snd (manual_mark e wid st d s)) = attendance s \<or>
    attendance (snd (manual_mark e wid st d s)) = attendance s @
      [\<lparr>worker_id = wid,
        attendance_status = (case st of None \<Rightarrow> ''PRESENT'' | Some t \<Rightarrow> t),
        ppe_status = ''ADMIN_OVERRIDE'',
        ppe_missing_items =
          ''Marked '' @ (case st of None \<Rightarrow> ''PRESENT'' | Some t \<Rightarrow> t) @ '' by Admin'',
        ppe_image_url = None,
        date = (case d of None \<Rightarrow> today e | Some x \<Rightarrow> x), created_at = now e\<rparr>])"
proof -
  have "list_all missing_only_when_absent (attendance s) \<longrightarrow>
      list_all missing_only_when_absent (attendance (snd (verify e wid img s)))"
    using verify_attendance_cases [of e wid img s]
    by (auto simp: missing_only_when_absent_def)
  with manual_upload_attendance_cases [of e wid img s]
    manual_mark_attendance_cases [of e wid st d s]
  show ?thesis by blast
qed

text \<open>
  The theorem on a table that already holds an ABSENT row with missing items, extended by
  \<open>verify\<close> on the reply \<open>PPE_MISSING: [VEST]\<close>.
\<close>

theorem verify_keeps_missing_only_when_absent_witness:
  "list_all missing_only_when_absent
     [\<lparr>worker_id = Some ''1002'', attendance_status = ''ABSENT'', ppe_status = ''FAILED'',
       ppe_missing_items = ''[BOOTS]'', ppe_image_url = None, date = ''2026-01-14'',
       created_at = 3\<rparr>] \<and>
   list_all missing_only_when_absent
     (attendance (snd (verify (env_ok\<lparr>generate_content := Inr (Some ''PPE_MISSING: [VEST]'')\<rparr>)
        (Some ''1001'') (Some ''data:image/jpeg;base64,QUJD'')
        (state_empty\<lparr>attendance :=
          [\<lparr>worker_id = Some ''1002'', attendance_status = ''ABSENT'', ppe_status = ''FAILED'',
            ppe_missing_items = ''[BOOTS]'', ppe_image_url = None, date = ''2026-01-14'',
            created_at = 3\<rparr>]\<rparr>))))"
proof -
  let ?row = "\<lparr>worker_id = Some ''1002'', attendance_status = ''ABSENT'', ppe_status = ''FAILED'',
       ppe_missing_items = ''[BOOTS]'', ppe_image_url = None, date = ''2026-01-14'',
       created_at = 3\<rparr>"
  have h: "list_all missing_only_when_absent [?row]"
    by (simp add: missing_only_when_absent_def)
  then have h': "list_all missing_only_when_absent
      (attendance (state_empty\<lparr>attendance := [?row]\<rparr>))"
    by simp
  from verify_keeps_missing_only_when_absent
    [of "state_empty\<lparr>attendance := [?row]\<rparr>"
        "env_ok\<lparr>generate_content := Inr (Some ''PPE_MISSING: [VEST]'')\<rparr>"
        "Some ''1001''" "Some ''data:image/jpeg;base64,QUJD''"] h'
  have "list_all missing_only_when_absent
     (attendance (snd (verify (env_ok\<lparr>generate_content := Inr (Some ''PPE_MISSING: [VEST]'')\<rparr>)
        (Some ''1001'') (Some ''data:image/jpeg;base64,QUJD'')
        (state_empty\<lparr>attendance := [?row]\<rparr>))))"
    by blast
  with h show ?thesis by blast
qed

text \<open>
  The claim as stated fails on the manual upload: the row it stores is PRESENT and has
  a non-empty \<open>ppe_missing_items\<close>.
\<close>

theorem manual_upload_present_with_missing_items:
  "attendance (snd (manual_upload env_ok (Some ''1001'') (Some ''data:image/jpeg;base64,QUJD'')
      state_empty)) =
     [\<lparr>worker_id = Some ''1001'', attendance_status = ''PRESENT'',
       ppe_status = ''MANUAL_VERIFIED'', ppe_missing_items = ''Manual Override Confirmed'',
       ppe_image_url = None, date = ''2026-01-15'', created_at = 7\<rparr>] \<and>
   \<not> missing_only_when_absent
     \<lparr>worker_id = Some ''1001'', attendance_status = ''PRESENT'',
       ppe_status = ''MANUAL_VERIFIED'', ppe_missing_items = ''Manual Override Confirmed'',
       ppe_image_url = None, date = ''2026-01-15'', created_at = 7\<rparr>"
proof -
  have "attendance (snd (manual_upload env_ok (Some ''1001'')
      (Some ''data:image/jpeg;base64,QUJD'') state_empty)) =
     [\<lparr>worker_id = Some ''1001'', attendance_status = ''PRESENT'',
       ppe_status = ''MANUAL_VERIFIED'', ppe_missing_items = ''Manual Override Confirmed'',
       ppe_image_url = None, date = ''2026-01-15'', created_at = 7\<rparr>]"
    by code_simp
  then show ?thesis by (simp add: missing_only_when_absent_def)
qed

section \<open>Retention of the uploaded frame (C5)\<close>

text \<open>
  C5 at a failing input. In \<open>manual_upload\<close> the object is removed only after the
  insert; when the insert raises, the handler answers ERROR and the uploaded object
  stays in the bucket, with no attendance row written. (In \<open>verify\<close> the removal
  comes before the insert.)
\<close>

theorem manual_upload_insert_failure_keeps_image:
  "manual_upload
     (env_ok\<lparr>attendance_insert_raises := Some (Database_Error ''insert failed'')\<rparr>)
     (Some ''1001'') (Some ''data:image/jpeg;base64,QUJD'') state_empty =
   (([(''status'', JStr ''ERROR''), (''message'', JStr ''insert failed'')], 500),
    \<lparr>workers = [], attendance = [],
     ppe_images = [(''manual_1001_u1.jpg'', [65, 66, 67])]\<rparr>)"
  by code_simp

section \<open>A failing classifier call (C6)\<close>

text \<open>
  C6. When the classifier call raises, \<open>verify_ppe_with_gemini\<close> returns the sentinel
  \<open>ERROR_GEMINI\<close>. In \<open>verify\<close> the sentinel is neither NO_WORKER nor PPE_OK: the
  response never has status PRESENT, the attendance table is either unchanged or extended
  by one row ABSENT / FAILED with missing items \<open>ERROR_GEMINI\<close>, and when the image
  decodes and no other external call raises, that row is stored and the response is
  ABSENT with HTTP 200. The handler always returns a response.
\<close>

theorem gemini_error_gives_absent:
  assumes "generate_content e = Inl err"
  shows "verify_ppe_with_gemini e raw_b64 = ''ERROR_GEMINI'' \<and>
   status_of (fst (verify e wid img s)) \<noteq> Some (JStr ''PRESENT'') \<and>
   (attendance (snd (verify e wid img s)) = attendance s \<or>
    attendance (snd (verify e wid img s)) = attendance s @
      [\<lparr>worker_id = wid, attendance_status = ''ABSENT'', ppe_status = ''FAILED'',
        ppe_missing_items = ''ERROR_GEMINI'', ppe_image_url = None, date = today e,
        created_at = now e\<rparr>]) \<and>
   (image_payload img = Inr raw_b64 \<and> (\<exists>b. b64decode e raw_b64 = Inr b) \<and>
    upload_raises e = None \<and> remove_raises e = None \<and>
    attendance_insert_raises e = None \<and> workers_select_raises e = None \<longrightarrow>
      status_of (fst (verify e wid img s)) = Some (JStr ''ABSENT'') \<and>
      snd (fst (verify e wid img s)) = 200 \<and>
      attendance (snd (verify e wid img s)) = attendance s @
        [\<lparr>worker_id = wid, attendance_status = ''ABSENT'', ppe_status = ''FAILED'',
          ppe_missing_items = ''ERROR_GEMINI'', ppe_image_url = None, date = today e,
          created_at = now e\<rparr>])"
proof -
  have g: "verify_ppe_with_gemini e b = ''ERROR_GEMINI''" for b
    using assms by (simp add: verify_ppe_with_gemini_def)
  show ?thesis
    by (auto simp add: g verify_def external_defs Let_def sentinel_facts status_of_def
        error_response_def split: sum.splits option.splits list.splits)
qed

text \<open>The theorem in an environment where only the classifier call raises.\<close>

theorem gemini_error_gives_absent_witness:
  "generate_content (env_ok\<lparr>generate_content := Inl (Gemini_Error ''deadline exceeded'')\<rparr>)
     = Inl (Gemini_Error ''deadline exceeded'') \<and>
   verify_ppe_with_gemini
     (env_ok\<lparr>generate_content := Inl (Gemini_Error ''deadline exceeded'')\<rparr>) ''QUJD''
     = ''ERROR_GEMINI'' \<and>
   status_of (fst (verify (env_ok\<lparr>generate_content := Inl (Gemini_Error ''deadline exceeded'')\<rparr>)
     (Some ''1001'') (Some ''data:image/jpeg;base64,QUJD'') state_empty))
     = Some (JStr ''ABSENT'') \<and>
   attendance (snd (verify (env_ok\<lparr>generate_content := Inl (Gemini_Error ''deadline exceeded'')\<rparr>)
     (Some ''1001'') (Some ''data:image/jpeg;base64,QUJD'') state_empty)) =
     [\<lparr>worker_id = Some ''1001'', attendance_status = ''ABSENT'', ppe_status = ''FAILED'',
       ppe_missing_items = ''ERROR_GEMINI'', ppe_image_url = None, date = ''2026-01-15'',
       created_at = 7\<rparr>]"
proof -
  let ?e = "env_ok\<lparr>generate_content := Inl (Gemini_Error ''deadline exceeded'')\<rparr>"
  have h: "generate_content ?e = Inl (Gemini_Error ''deadline exceeded'')"
    by simp
  have v: "today ?e = ''2026-01-15''" "now ?e = 7" "attendance state_empty = []"
    by (simp_all add: env_ok_def state_empty_def)
  from gemini_error_gives_absent [OF h, of "''QUJD''" "Some ''1001''"
      "Some ''data:image/jpeg;base64,QUJD''" state_empty]
    sample_payload sample_decode [of "Inl (Gemini_Error ''deadline exceeded'')"]
    sample_flags [of "Inl (Gemini_Error ''deadline exceeded'')"]
  show ?thesis
    by (simp add: v)
qed

section \<open>Validation of required fields (C8)\<close>

text \<open>
  C8, as the code has it. \<open>precheck\<close> with a missing (or empty) \<open>worker_id\<close> and
  \<open>add_worker\<close> with a missing (or empty) \<open>name\<close> answer HTTP 400 and leave the state
  unchanged.
\<close>

theorem missing_field_rejected_by_precheck_and_add_worker:
  "(falsy wid \<longrightarrow>
      precheck e wid s =
        (([(''status'', JStr ''ERROR''), (''message'', JStr ''Worker ID required'')], 400), s)) \<and>
   (falsy nm \<longrightarrow>
      add_worker e nm s = (([(''error'', JStr ''Name is required'')], 400), s))"
  by (auto simp: precheck_def add_worker_def falsy_def split: option.splits)

text \<open>The theorem on requests without the field.\<close>

theorem missing_field_rejected_witness:
  "falsy None \<and>
   precheck env_ok None state_empty =
     (([(''status'', JStr ''ERROR''), (''message'', JStr ''Worker ID required'')], 400),
      state_empty) \<and>
   add_worker env_ok None state_empty =
     (([(''error'', JStr ''Name is required'')], 400), state_empty)"
proof -
  have f: "falsy None" by (simp add: falsy_def)
  from missing_field_rejected_by_precheck_and_add_worker
    [of None env_ok state_empty None] f
  show ?thesis by blast
qed

text \<open>
  The claim as stated fails on the attendance-writing endpoints: without a
  \<open>worker_id\<close>, \<open>manual_mark\<close> and \<open>verify\<close> insert a row and answer HTTP 200, and
  \<open>verify\<close> without an image answers HTTP 500.
\<close>

theorem manual_mark_and_verify_accept_missing_worker_id:
  "manual_mark env_ok None None None state_empty =
     (([(''status'', JStr ''SUCCESS'')], 200),
      \<lparr>workers = [],
       attendance =
         [\<lparr>worker_id = None, attendance_status = ''PRESENT'', ppe_status = ''ADMIN_OVERRIDE'',
           ppe_missing_items = ''Marked PRESENT by Admin'', ppe_image_url = None,
           date = ''2026-01-15'', created_at = 7\<rparr>],
       ppe_images = []\<rparr>) \<and>
   verify env_ok None (Some ''data:image/jpeg;base64,QUJD'') state_empty =
     (([(''status'', JStr ''PRESENT''), (''worker_name'', JStr ''Worker''),
        (''missing'', JStr [])], 200),
      \<lparr>workers = [],
       attendance =
         [\<lparr>worker_id = None, attendance_status = ''PRESENT'', ppe_status = ''PASSED'',
           ppe_missing_items = [], ppe_image_url = None, date = ''2026-01-15'',
           created_at = 7\<rparr>],
       ppe_images = []\<rparr>) \<and>
   snd (fst (verify env_ok (Some ''1001'') None state_empty)) = 500"
  by code_simp

section \<open>Decoding the image field (C7)\<close>

lemma split_no_sep: "sep \<notin> set t \<Longrightarrow> split t sep = [t]"
  by (induction t) auto

lemma hd_split: "\<exists>ps. split t sep = takeWhile (\<lambda>c. c \<noteq> sep) t # ps"
  by (induction t) auto

lemma split_at_first: "sep \<notin> set pre \<Longrightarrow> split (pre @ sep # rest) sep = pre # split rest sep"
  by (induction pre) auto

lemma image_payload_comma:
  assumes "CHR '','' \<notin> set pre"
  shows "image_payload (Some (pre @ CHR '','' # rest)) =
    Inr (takeWhile (\<lambda>c. c \<noteq> CHR '','') rest)"
proof -
  obtain ps where "split rest (CHR '','') = takeWhile (\<lambda>c. c \<noteq> CHR '','') rest # ps"
    using hd_split by blast
  with assms show ?thesis
    by (simp add: image_payload_def split_at_first)
qed

lemma image_payload_no_comma: "CHR '','' \<notin> set t \<Longrightarrow> image_payload (Some t) = Inl IndexError"
  by (simp add: image_payload_def split_no_sep)

lemma dropWhile_to_sep:
  "sep \<notin> set pre \<Longrightarrow> dropWhile (\<lambda>c. c \<noteq> sep) (pre @ sep # rest) = sep # rest"
  by (induction pre) auto

lemma spec_image_payload_comma:
  "CHR '','' \<notin> set pre \<Longrightarrow> spec_image_payload (pre @ CHR '','' # rest) = Some rest"
  by (simp add: spec_image_payload_def dropWhile_to_sep)

lemma undecodable_image:
  "image_payload img = Inl err \<Longrightarrow> verify e wid img s = (error_response err, s)"
  "image_payload img = Inl err \<Longrightarrow> manual_upload e wid img s = (error_response err, s)"
  "image_payload img = Inr p \<Longrightarrow> b64decode e p = Inl err \<Longrightarrow>
     verify e wid img s = (error_response err, s)"
  "image_payload img = Inr p \<Longrightarrow> b64decode e p = Inl err \<Longrightarrow>
     manual_upload e wid img s = (error_response err, s)"
  by (simp_all add: verify_def manual_upload_def)

lemma a2b_skips:
  "a2b_base64 q l p out (filter (\<lambda>c. c = CHR ''='' \<or> is_b64_char c) t) = a2b_base64 q l p out t"
  by (induction t arbitrary: q l p out) (auto simp add: is_b64_char_def split: option.splits)

lemma a2b_no_pad:
  "CHR ''='' \<notin> set t \<Longrightarrow> q < 4 \<Longrightarrow>
     (\<exists>b. a2b_base64 q l p out t = Inr b) = ((q + length (filter is_b64_char t)) mod 4 = 0)"
proof (induction t arbitrary: q l p out)
  case Nil
  then show ?case by auto
next
  case (Cons c cs)
  from Cons.prems have ne: "c \<noteq> CHR ''=''" and cs: "CHR ''='' \<notin> set cs" by auto
  show ?case
  proof (cases "b64_value c")
    case None
    then show ?thesis
      using Cons.IH [OF cs Cons.prems(2), of l p out] ne by (simp add: is_b64_char_def)
  next
    case (Some v)
    consider "q = 0" | "q = 1" | "q = 2" | "q = 3" using Cons.prems(2) by linarith
    then show ?thesis
    proof cases
      case 1
      then show ?thesis
        using Cons.IH [OF cs, of 1 v 0 out] ne Some by (simp add: is_b64_char_def)
    next
      case 2
      then show ?thesis
        using Cons.IH [OF cs, of 2 "v mod 16" 0 "out @ [l * 4 + v div 16]"] ne Some
        by (simp add: is_b64_char_def)
    next
      case 3
      then show ?thesis
        using Cons.IH [OF cs, of 3 "v mod 4" 0 "out @ [l * 16 + v div 4]"] ne Some
        by (simp add: is_b64_char_def)
    next
      case 4
      have "((3 + Suc n) mod 4 = 0) = (n mod 4 = 0)" for n :: nat by presburger
      with 4 show ?thesis
        using Cons.IH [OF cs, of 0 0 0 "out @ [l * 64 + v]"] ne Some
        by (simp add: is_b64_char_def)
    qed
  qed
qed

lemma py_b64decode_skips:
  "list_all is_ascii t \<Longrightarrow>
     py_b64decode (filter (\<lambda>c. c = CHR ''='' \<or> is_b64_char c) t) = py_b64decode t"
  by (simp add: py_b64decode_def a2b_skips list_all_iff)

lemma py_b64decode_no_pad:
  assumes "list_all is_ascii t" and "CHR ''='' \<notin> set t"
  shows "(\<exists>err. py_b64decode t = Inl err) = (length (filter is_b64_char t) mod 4 \<noteq> 0)"
proof -
  have "(\<exists>b. py_b64decode t = Inr b) = (length (filter is_b64_char t) mod 4 = 0)"
    using assms a2b_no_pad [of t 0 0 0 "[]"] by (simp add: py_b64decode_def)
  moreover have "(\<exists>err. py_b64decode t = Inl err) = (\<not> (\<exists>b. py_b64decode t = Inr b))"
    by (cases "py_b64decode t") auto
  ultimately show ?thesis by simp
qed

lemma py_b64decode_not_ascii: "\<not> list_all is_ascii t \<Longrightarrow> py_b64decode t = Inl ValueError"
  by (simp add: py_b64decode_def)

text \<open>
  C7, as the code has it. The payload handed to the base64 decoder is the second piece of
  the image string cut at every comma: the text between the first comma and the second
  one, or up to the end when there is only one comma (then it is the entire remainder).
  The decoder is \<open>base64.b64decode\<close> without validation: it skips every character
  outside the base64 alphabet, so a payload that is not valid base64 may still decode; it
  raises on a character beyond ASCII, and on a payload without pad signs exactly when the
  number of its alphabet characters is not a multiple of four (with pad signs its own
  padding rule decides). If the string has no comma (IndexError), the field is missing
  (AttributeError) or the decoder raises on the payload, \<open>verify\<close> and
  \<open>manual_upload\<close> answer the generic ERROR response with HTTP 500 and leave the state
  as it was: no upload, no attendance row.
\<close>

theorem image_payload_is_second_piece:
  "(CHR '','' \<notin> set pre \<longrightarrow>
      image_payload (Some (pre @ CHR '','' # rest)) =
        Inr (takeWhile (\<lambda>c. c \<noteq> CHR '','') rest)) \<and>
   (CHR '','' \<notin> set pre \<and> CHR '','' \<notin> set rest \<longrightarrow>
      image_payload (Some (pre @ CHR '','' # rest)) = Inr rest \<and>
      spec_image_payload (pre @ CHR '','' # rest) = Some rest) \<and>
   (CHR '','' \<notin> set t \<longrightarrow> image_payload (Some t) = Inl IndexError) \<and>
   image_payload None = Inl AttributeError \<and>
   (image_payload img = Inl err \<longrightarrow>
      verify e wid img s = (error_response err, s) \<and>
      manual_upload e wid img s = (error_response err, s)) \<and>
   (image_payload img = Inr p \<and> b64decode e p = Inl err \<longrightarrow>
      verify e wid img s = (error_response err, s) \<and>
      manual_upload e wid img s = (error_response err, s)) \<and>
   (list_all is_ascii q \<longrightarrow>
      py_b64decode (filter (\<lambda>c. c = CHR ''='' \<or> is_b64_char c) q) = py_b64decode q) \<and>
   (list_all is_ascii q \<and> CHR ''='' \<notin> set q \<longrightarrow>
      (\<exists>err. py_b64decode q = Inl err) = (length (filter is_b64_char q) mod 4 \<noteq> 0)) \<and>
   (\<not> list_all is_ascii q \<longrightarrow> py_b64decode q = Inl ValueError) \<and>
   (b64decode e = py_b64decode \<and> image_payload img = Inr p \<and>
    (\<not> list_all is_ascii p \<or>
     CHR ''='' \<notin> set p \<and> length (filter is_b64_char p) mod 4 \<noteq> 0) \<longrightarrow>
      (\<exists>err. verify e wid img s = (error_response err, s) \<and>
             manual_upload e wid img s = (error_response err, s)))"
proof -
  have one: "CHR '','' \<notin> set pre \<and> CHR '','' \<notin> set rest \<longrightarrow>
      image_payload (Some (pre @ CHR '','' # rest)) = Inr rest"
    using image_payload_comma [of pre rest] by (auto simp add: takeWhile_eq_all_conv)
  have none: "image_payload None = Inl AttributeError"
    by (simp add: image_payload_def)
  have real: "\<exists>err. verify e wid img s = (error_response err, s) \<and>
             manual_upload e wid img s = (error_response err, s)"
    if h: "b64decode e = py_b64decode \<and> image_payload img = Inr p \<and>
      (\<not> list_all is_ascii p \<or>
       CHR ''='' \<notin> set p \<and> length (filter is_b64_char p) mod 4 \<noteq> 0)"
  proof -
    from h have "\<exists>err. py_b64decode p = Inl err"
      using py_b64decode_no_pad [of p] py_b64decode_not_ascii [of p] by blast
    then obtain err' where "b64decode e p = Inl err'" using h by auto
    with h undecodable_image(3,4) [of img p e err' wid s] show ?thesis by blast
  qed
  from one none image_payload_comma [of pre rest] spec_image_payload_comma [of pre rest]
    image_payload_no_comma [of t] undecodable_image(1,2) [of img err e wid s]
    undecodable_image(3,4) [of img p e err wid s]
    py_b64decode_skips [of q] py_b64decode_no_pad [of q] py_b64decode_not_ascii [of q] real
  show ?thesis by blast
qed

text \<open>
  The theorem on the data URL with one comma, on a string without a comma, and on the
  payload \<open>Q\<close>, one alphabet character, which the decoder rejects.
\<close>

theorem image_payload_is_second_piece_witness:
  "CHR '','' \<notin> set ''data:image/jpeg;base64'' \<and> CHR '','' \<notin> set ''QUJD'' \<and>
   image_payload (Some ''data:image/jpeg;base64,QUJD'') = Inr ''QUJD'' \<and>
   image_payload (Some ''QUJD'') = Inl IndexError \<and>
   verify env_ok (Some ''1001'') (Some ''QUJD'') state_empty =
     (error_response IndexError, state_empty) \<and>
   manual_upload env_ok (Some ''1001'') (Some ''QUJD'') state_empty =
     (error_response IndexError, state_empty) \<and>
   b64decode env_ok = py_b64decode \<and>
   image_payload (Some ''data:image/jpeg;base64,Q'') = Inr ''Q'' \<and>
   list_all is_ascii ''Q'' \<and> CHR ''='' \<notin> set ''Q'' \<and>
   length (filter is_b64_char ''Q'') mod 4 = 1 \<and>
   b64decode env_ok ''Q'' = Inl (Binascii_Invalid 1) \<and>
   verify env_ok (Some ''1001'') (Some ''data:image/jpeg;base64,Q'') state_empty =
     (error_response (Binascii_Invalid 1), state_empty) \<and>
   manual_upload env_ok (Some ''1001'') (Some ''data:image/jpeg;base64,Q'') state_empty =
     (error_response (Binascii_Invalid 1), state_empty)"
proof -
  have a: "CHR '','' \<notin> set ''data:image/jpeg;base64''" "CHR '','' \<notin> set ''QUJD''"
    by simp_all
  have d: "b64decode env_ok = py_b64decode"
    by (simp add: env_ok_def)
  have q: "image_payload (Some ''data:image/jpeg;base64,Q'') = Inr ''Q''"
    "list_all is_ascii ''Q''" "CHR ''='' \<notin> set ''Q''"
    "length (filter is_b64_char ''Q'') mod 4 = 1"
    "py_b64decode ''Q'' = Inl (Binascii_Invalid 1)"
    by code_simp+
  from q(5) d have dq: "b64decode env_ok ''Q'' = Inl (Binascii_Invalid 1)" by simp
  from image_payload_is_second_piece
    [of "''data:image/jpeg;base64''" "''QUJD''" "''QUJD''" "Some ''QUJD''" IndexError
        env_ok "Some ''1001''" state_empty] a
  have 1: "image_payload (Some ''data:image/jpeg;base64,QUJD'') = Inr ''QUJD''"
    and 2: "image_payload (Some ''QUJD'') = Inl IndexError"
    and 3: "verify env_ok (Some ''1001'') (Some ''QUJD'') state_empty =
      (error_response IndexError, state_empty)"
    and 4: "manual_upload env_ok (Some ''1001'') (Some ''QUJD'') state_empty =
      (error_response IndexError, state_empty)"
    by simp_all
  from image_payload_is_second_piece
    [of "[]" "[]" "[]" "Some ''data:image/jpeg;base64,Q''" "Binascii_Invalid 1"
        env_ok "Some ''1001''" state_empty "''Q''"] q(1) dq
  have 5: "verify env_ok (Some ''1001'') (Some ''data:image/jpeg;base64,Q'') state_empty =
      (error_response (Binascii_Invalid 1), state_empty)"
    and 6: "manual_upload env_ok (Some ''1001'') (Some ''data:image/jpeg;base64,Q'')
      state_empty = (error_response (Binascii_Invalid 1), state_empty)"
    by simp_all
  from a 1 2 3 4 5 6 q d dq show ?thesis by blast
qed

text \<open>
  The claim as stated fails twice. When the remainder has a comma of its own, the decoder
  gets the piece up to the second comma, not the entire remainder, and the bytes differ.
  And a payload that is not valid base64 need not fail: \<open>!!!!\<close> decodes to no bytes and
  \<open>QU!JD\<close> to the three bytes of \<open>QUJD\<close>, and \<open>verify\<close> goes on to store an
  attendance row.
\<close>

theorem image_payload_not_entire_remainder:
  "image_payload (Some ''data:image/jpeg;base64,QUJD,REVG'') = Inr ''QUJD'' \<and>
   spec_image_payload ''data:image/jpeg;base64,QUJD,REVG'' = Some ''QUJD,REVG'' \<and>
   py_b64decode ''QUJD'' = Inr [65, 66, 67] \<and>
   py_b64decode ''QUJD,REVG'' = Inr [65, 66, 67, 68, 69, 70] \<and>
   \<not> spec_valid_base64 ''!!!!'' \<and>
   py_b64decode ''!!!!'' = Inr [] \<and>
   \<not> spec_valid_base64 ''QU!JD'' \<and>
   py_b64decode ''QU!JD'' = Inr [65, 66, 67] \<and>
   verify env_ok (Some ''1001'') (Some ''data:image/jpeg;base64,QU!JD'') state_empty =
     (([(''status'', JStr ''PRESENT''), (''worker_name'', JStr ''Worker''),
        (''missing'', JStr [])], 200),
      \<lparr>workers = [],
       attendance =
         [\<lparr>worker_id = Some ''1001'', attendance_status = ''PRESENT'', ppe_status = ''PASSED'',
           ppe_missing_items = [], ppe_image_url = None, date = ''2026-01-15'',
           created_at = 7\<rparr>],
       ppe_images = []\<rparr>)"
  by code_simp

section \<open>The registered-worker total (C9)\<close>

text \<open>
  C9. When the two queries of \<open>get_stats\<close> do not raise, the response is HTTP 200 and its
  \<open>total_workers\<close> is the number of rows of the workers table, for every requested date
  (or none); the state is not changed. For a date without attendance rows the response
  is present 0, absent 0 and that total.
\<close>

theorem get_stats_total_workers:
  assumes "attendance_select_raises e = None" and "workers_select_raises e = None"
  shows "snd (fst (get_stats e date_arg s)) = 200 \<and>
     map_of (fst (fst (get_stats e date_arg s))) ''total_workers'' =
       Some (JInt (int (length (workers s)))) \<and>
     snd (get_stats e date_arg s) = s \<and>
     (filter (\<lambda>r. date r = (case date_arg of None \<Rightarrow> today e | Some d \<Rightarrow> d))
        (attendance s) = [] \<longrightarrow>
       fst (get_stats e date_arg s) =
         ([(''present'', JInt 0), (''absent'', JInt 0),
           (''total_workers'', JInt (int (length (workers s)))),
           (''date'', JStr (case date_arg of None \<Rightarrow> today e | Some d \<Rightarrow> d))], 200))"
  using assms
  by (simp add: get_stats_def attendance_select_date_def workers_count_def Let_def
      count_status_def)

text \<open>
  The theorem on a registry of two workers whose only attendance row is of another day.
\<close>

theorem get_stats_total_workers_witness:
  "attendance_select_raises env_ok = None \<and> workers_select_raises env_ok = None \<and>
   filter (\<lambda>r. date r = ''2026-01-15'')
     [\<lparr>worker_id = Some ''1001'', attendance_status = ''PRESENT'', ppe_status = ''PASSED'',
       ppe_missing_items = [], ppe_image_url = None, date = ''2026-01-14'',
       created_at = 3\<rparr>] = [] \<and>
   fst (get_stats env_ok (Some ''2026-01-15'')
     \<lparr>workers = [\<lparr>wr_worker_id = ''1001'', wr_name = ''Asha''\<rparr>,
                 \<lparr>wr_worker_id = ''1002'', wr_name = ''Ravi''\<rparr>],
      attendance =
        [\<lparr>worker_id = Some ''1001'', attendance_status = ''PRESENT'', ppe_status = ''PASSED'',
          ppe_missing_items = [], ppe_image_url = None, date = ''2026-01-14'',
          created_at = 3\<rparr>],
      ppe_images = []\<rparr>) =
     ([(''present'', JInt 0), (''absent'', JInt 0), (''total_workers'', JInt 2),
       (''date'', JStr ''2026-01-15'')], 200)"
proof -
  have h: "attendance_select_raises env_ok = None" "workers_select_raises env_ok = None"
    by (simp_all add: env_ok_def)
  from get_stats_total_workers [OF h, of "Some ''2026-01-15''"
    "\<lparr>workers = [\<lparr>wr_worker_id = ''1001'', wr_name = ''Asha''\<rparr>,
                 \<lparr>wr_worker_id = ''1002'', wr_name = ''Ravi''\<rparr>],
      attendance =
        [\<lparr>worker_id = Some ''1001'', attendance_status = ''PRESENT'', ppe_status = ''PASSED'',
          ppe_missing_items = [], ppe_image_url = None, date = ''2026-01-14'',
          created_at = 3\<rparr>],
      ppe_images = []\<rparr>"] h
  show ?thesis by simp
qed

section \<open>Daily aggregation: the latest status wins (C3)\<close>

lemma map_of_latest_status_map:
  "map_of (latest_status_map logs m) w =
     (if rows_of w logs = [] then map_of m w
      else Some (attendance_status (last (rows_of w logs))))"
proof (induction logs arbitrary: m)
  case Nil
  then show ?case by (simp add: rows_of_def)
next
  case (Cons l ls)
  then show ?case by (simp add: rows_of_def update_conv')
qed

lemma distinct_latest_status_map:
  "distinct (map fst m) \<Longrightarrow> distinct (map fst (latest_status_map logs m))"
  by (induction logs arbitrary: m) (simp_all add: distinct_update)

lemma count_status_card:
  assumes "distinct (map fst m)"
  shows "count_status st m = card {w. map_of m w = Some st}"
  using assms
proof (induction m)
  case Nil
  then show ?case by (simp add: count_status_def)
next
  case (Cons p m)
  obtain k v where p: "p = (k, v)" by (cases p)
  from Cons.prems p have k: "k \<notin> fst ` set m" and d: "distinct (map fst m)" by auto
  from k have none: "map_of m k = None" by (simp add: map_of_eq_None_iff)
  have fin: "finite {w. map_of m w = Some st}"
  proof (rule finite_subset)
    show "{w. map_of m w = Some st} \<subseteq> fst ` set m"
      by (auto dest: map_of_SomeD intro: rev_image_eqI)
  qed simp
  have notin: "k \<notin> {w. map_of m w = Some st}" using none by simp
  have set_eq: "{w. map_of (p # m) w = Some st} =
      (if v = st then insert k {w. map_of m w = Some st} else {w. map_of m w = Some st})"
    using none by (auto simp: p)
  have "count_status st (p # m) = (if v = st then 1 else 0) + count_status st m"
    by (simp add: count_status_def p)
  also have "\<dots> = (if v = st then 1 else 0) + card {w. map_of m w = Some st}"
    using Cons.IH d by simp
  also have "\<dots> = card {w. map_of (p # m) w = Some st}"
    unfolding set_eq using fin notin by simp
  finally show ?case .
qed

lemma sorted_le_last: "sorted xs \<Longrightarrow> x \<in> set xs \<Longrightarrow> x \<le> last xs"
  for xs :: "nat list"
  by (induction xs) auto

lemma last_rows_latest:
  assumes "sorted (map created_at logs)" and "r \<in> set (rows_of w logs)"
  shows "created_at r \<le> created_at (last (rows_of w logs))"
proof -
  have s: "sorted (map created_at (rows_of w logs))"
    using assms(1) unfolding rows_of_def by (rule sorted_filter)
  from assms(2) have ne: "rows_of w logs \<noteq> []" by auto
  have "created_at r \<in> set (map created_at (rows_of w logs))" using assms(2) by simp
  then have "created_at r \<le> last (map created_at (rows_of w logs))"
    by (rule sorted_le_last [OF s])
  then show ?thesis using ne by (simp add: last_map)
qed

lemma get_stats_counts:
  assumes "attendance_select_raises e = None" and "workers_select_raises e = None"
  shows "fst (get_stats e date_arg s) =
    (let d = (case date_arg of None \<Rightarrow> today e | Some x \<Rightarrow> x);
         m = latest_status_map (sort_key created_at
               (sort_key (tie_order e) (filter (\<lambda>r. date r = d) (attendance s)))) []
     in ([(''present'', JInt (int (card {w. map_of m w = Some ''PRESENT''}))),
          (''absent'', JInt (int (card {w. map_of m w = Some ''ABSENT''}))),
          (''total_workers'', JInt (int (length (workers s)))),
          (''date'', JStr d)], 200))"
proof -
  have d: "distinct (map fst (latest_status_map logs []))" for logs
    by (rule distinct_latest_status_map) simp
  show ?thesis
    using assms
    by (simp add: get_stats_def attendance_select_date_def workers_count_def Let_def
        count_status_card [OF d])
qed

lemma present_then_absent:
  assumes "worker_id r1 = worker_id r2" "attendance_status r1 = ''PRESENT''" "attendance_status r2 = ''ABSENT''"
  shows "count_status ''PRESENT'' (latest_status_map [r1, r2] []) = 0 \<and>
         count_status ''ABSENT'' (latest_status_map [r1, r2] []) = 1"
  using assms by (simp add: count_status_def)

text \<open>
  C3. For the requested date \<open>d\<close> (today when none is given), when the queries do not
  raise: the fetched rows \<open>logs\<close> are exactly the attendance rows of date \<open>d\<close>,
  ascending by \<open>created_at\<close>, however the database orders equal timestamps; the per-worker map built by the loop gives every worker the
  status of the worker's last row in \<open>logs\<close> and is undefined for a worker without a
  row; that last row is a row of the table, of date \<open>d\<close> and of that worker, whose
  \<open>created_at\<close> is not before that of any of the worker's rows of the date; and the
  response's \<open>present\<close> and \<open>absent\<close> are the numbers of workers whose latest status
  is exactly PRESENT, respectively exactly ABSENT, so a worker with any other latest status
  is in neither. In particular two rows PRESENT then ABSENT of one worker give present 0
  and absent 1.
\<close>

theorem get_stats_latest_status_wins:
  assumes "attendance_select_raises e = None" and "workers_select_raises e = None"
  shows "(let d = (case date_arg of None \<Rightarrow> today e | Some x \<Rightarrow> x);
              logs = sort_key created_at
                       (sort_key (tie_order e) (filter (\<lambda>r. date r = d) (attendance s)));
              m = latest_status_map logs []
          in sorted (map created_at logs) \<and>
             mset logs = mset (filter (\<lambda>r. date r = d) (attendance s)) \<and>
             (\<forall>w. map_of m w =
                (if rows_of w logs = [] then None
                 else Some (attendance_status (last (rows_of w logs))))) \<and>
             (\<forall>r. r \<in> set (attendance s) \<and> date r = d \<longrightarrow>
                last (rows_of (worker_id r) logs) \<in> set (attendance s) \<and>
                date (last (rows_of (worker_id r) logs)) = d \<and>
                worker_id (last (rows_of (worker_id r) logs)) = worker_id r \<and>
                created_at r \<le> created_at (last (rows_of (worker_id r) logs))) \<and>
             fst (get_stats e date_arg s) =
               ([(''present'', JInt (int (card {w. map_of m w = Some ''PRESENT''}))),
                 (''absent'', JInt (int (card {w. map_of m w = Some ''ABSENT''}))),
                 (''total_workers'', JInt (int (length (workers s)))),
                 (''date'', JStr d)], 200)) \<and>
         (worker_id r1 = worker_id r2 \<and> attendance_status r1 = ''PRESENT'' \<and>
          attendance_status r2 = ''ABSENT'' \<longrightarrow>
             count_status ''PRESENT'' (latest_status_map [r1, r2] []) = 0 \<and>
             count_status ''ABSENT'' (latest_status_map [r1, r2] []) = 1)"
proof -
  define d where "d = (case date_arg of None \<Rightarrow> today e | Some x \<Rightarrow> x)"
  define logs where "logs = sort_key created_at
      (sort_key (tie_order e) (filter (\<lambda>r. date r = d) (attendance s)))"
  define m where "m = latest_status_map logs []"
  have srt: "sorted (map created_at logs)" by (simp add: logs_def)
  have ms: "mset logs = mset (filter (\<lambda>r. date r = d) (attendance s))" by (simp add: logs_def)
  have st: "set logs = {r \<in> set (attendance s). date r = d}" by (auto simp: logs_def)
  have mp: "map_of m w = (if rows_of w logs = [] then None
       else Some (attendance_status (last (rows_of w logs))))" for w
    by (simp add: m_def map_of_latest_status_map)
  have chron: "last (rows_of (worker_id r) logs) \<in> set (attendance s) \<and>
        date (last (rows_of (worker_id r) logs)) = d \<and>
        worker_id (last (rows_of (worker_id r) logs)) = worker_id r \<and>
        created_at r \<le> created_at (last (rows_of (worker_id r) logs))"
    if "r \<in> set (attendance s) \<and> date r = d" for r
  proof -
    from that have rin: "r \<in> set (rows_of (worker_id r) logs)" by (simp add: rows_of_def st)
    then have ne: "rows_of (worker_id r) logs \<noteq> []" by auto
    then have "last (rows_of (worker_id r) logs) \<in> set (rows_of (worker_id r) logs)"
      by (rule last_in_set)
    then have "last (rows_of (worker_id r) logs) \<in> set logs"
      and w: "worker_id (last (rows_of (worker_id r) logs)) = worker_id r"
      by (simp_all add: rows_of_def)
    then have "last (rows_of (worker_id r) logs) \<in> set (attendance s)"
      and "date (last (rows_of (worker_id r) logs)) = d"
      by (simp_all add: st)
    with w last_rows_latest [OF srt rin] show ?thesis by simp
  qed
  have resp: "fst (get_stats e date_arg s) =
       ([(''present'', JInt (int (card {w. map_of m w = Some ''PRESENT''}))),
         (''absent'', JInt (int (card {w. map_of m w = Some ''ABSENT''}))),
         (''total_workers'', JInt (int (length (workers s)))),
         (''date'', JStr d)], 200)"
    using get_stats_counts [OF assms, of date_arg s]
    by (simp add: Let_def d_def logs_def m_def)
  have two: "worker_id r1 = worker_id r2 \<and> attendance_status r1 = ''PRESENT'' \<and>
          attendance_status r2 = ''ABSENT'' \<longrightarrow>
             count_status ''PRESENT'' (latest_status_map [r1, r2] []) = 0 \<and>
             count_status ''ABSENT'' (latest_status_map [r1, r2] []) = 1"
    using present_then_absent [of r1 r2] by blast
  from srt ms mp chron resp two show ?thesis
    unfolding Let_def d_def [symmetric] logs_def [symmetric] m_def [symmetric]
    by blast
qed

text \<open>
  The theorem on a day where worker 1001 was stored ABSENT at time 5 and PRESENT at time 2,
  listed out of order in the table, and worker 1002 PRESENT at time 4.
\<close>

theorem get_stats_latest_status_wins_witness:
  "attendance_select_raises env_ok = None \<and> workers_select_raises env_ok = None \<and>
   map_of (latest_status_map (sort_key created_at (sort_key (tie_order env_ok)
       (filter (\<lambda>r. date r = ''2026-01-15'') (attendance state_day)))) []) (Some ''1001'')
     = Some ''ABSENT'' \<and>
   fst (get_stats env_ok (Some ''2026-01-15'') state_day) =
     ([(''present'', JInt 1), (''absent'', JInt 1), (''total_workers'', JInt 1),
       (''date'', JStr ''2026-01-15'')], 200) \<and>
   worker_id (sample_row ''1001'' ''PRESENT'' ''2026-01-15'' 2) =
     worker_id (sample_row ''1001'' ''ABSENT'' ''2026-01-15'' 5) \<and>
   count_status ''PRESENT'' (latest_status_map
     [sample_row ''1001'' ''PRESENT'' ''2026-01-15'' 2,
      sample_row ''1001'' ''ABSENT'' ''2026-01-15'' 5] []) = 0 \<and>
   count_status ''ABSENT'' (latest_status_map
     [sample_row ''1001'' ''PRESENT'' ''2026-01-15'' 2,
      sample_row ''1001'' ''ABSENT'' ''2026-01-15'' 5] []) = 1"
proof -
  let ?logs = "sort_key created_at (sort_key (tie_order env_ok)
       (filter (\<lambda>r. date r = ''2026-01-15'') (attendance state_day)))"
  let ?r1 = "sample_row ''1001'' ''PRESENT'' ''2026-01-15'' 2"
  let ?r2 = "sample_row ''1001'' ''ABSENT'' ''2026-01-15'' 5"
  have h: "attendance_select_raises env_ok = None" "workers_select_raises env_ok = None"
    by (simp_all add: env_ok_def)
  have r: "worker_id ?r1 = worker_id ?r2" "attendance_status ?r1 = ''PRESENT''"
    "attendance_status ?r2 = ''ABSENT''"
    by (simp_all add: sample_row_def)
  note t = get_stats_latest_status_wins [OF h, of "Some ''2026-01-15''" state_day ?r1 ?r2,
      unfolded Let_def option.case]
  from t have "map_of (latest_status_map ?logs []) (Some ''1001'') =
      (if rows_of (Some ''1001'') ?logs = [] then None
       else Some (attendance_status (last (rows_of (Some ''1001'') ?logs))))"
    by blast
  also have "\<dots> = Some ''ABSENT''"
    by code_simp
  finally have 1: "map_of (latest_status_map ?logs []) (Some ''1001'') = Some ''ABSENT''" .
  have 2: "fst (get_stats env_ok (Some ''2026-01-15'') state_day) =
     ([(''present'', JInt 1), (''absent'', JInt 1), (''total_workers'', JInt 1),
       (''date'', JStr ''2026-01-15'')], 200)"
    by code_simp
  from t r have 3: "count_status ''PRESENT'' (latest_status_map [?r1, ?r2] []) = 0 \<and>
      count_status ''ABSENT'' (latest_status_map [?r1, ?r2] []) = 1"
    by blast
  from h 1 2 3 r(1) show ?thesis by blast
qed

section \<open>Attendance of an unregistered worker id (C10)\<close>

lemma finite_status_set: "finite {w. map_of m w = Some st}"
proof (rule finite_subset)
  show "{w. map_of m w = Some st} \<subseteq> fst ` set m"
    by (auto dest: map_of_SomeD intro: rev_image_eqI)
qed simp

lemma card_status_pos: "map_of m k = Some st \<Longrightarrow> 1 \<le> card {w. map_of m w = Some st}"
proof -
  assume "map_of m k = Some st"
  then have "k \<in> {w. map_of m w = Some st}" by simp
  then have "card {w. map_of m w = Some st} \<noteq> 0"
    using finite_status_set [of m st] by (auto simp del: mem_Collect_eq)
  then show ?thesis by simp
qed

lemma newest_row_wins:
  assumes "sorted (map created_at logs)"
    and "mset logs = mset (filter (\<lambda>r. date r = date x) (rows @ [x]))"
    and "\<forall>r\<in>set rows. created_at r < created_at x"
  shows "map_of (latest_status_map logs []) (worker_id x) = Some (attendance_status x)"
proof -
  have st: "set logs = set (filter (\<lambda>r. date r = date x) (rows @ [x]))"
    by (rule mset_eq_setD [OF assms(2)])
  then have xr: "x \<in> set (rows_of (worker_id x) logs)" by (simp add: rows_of_def)
  then have ne: "rows_of (worker_id x) logs \<noteq> []" by auto
  define l where "l = last (rows_of (worker_id x) logs)"
  have "l \<in> set (rows_of (worker_id x) logs)" unfolding l_def using ne by (rule last_in_set)
  then have "l \<in> set logs" by (simp add: rows_of_def)
  then have "l \<in> set rows \<or> l = x" using st by auto
  moreover have "created_at x \<le> created_at l"
    unfolding l_def by (rule last_rows_latest [OF assms(1) xr])
  ultimately have "l = x" using assms(3) by force
  then show ?thesis using ne by (simp add: map_of_latest_status_map l_def)
qed

lemma never_404:
  "snd (fst (verify e wid img s)) \<noteq> 404" "snd (fst (manual_mark e wid st d s)) \<noteq> 404"
  by (auto simp add: verify_def manual_mark_def external_defs Let_def error_response_def
      error_only_response_def split: sum.splits option.splits)

lemma verify_conclusive:
  assumes "image_payload img = Inr raw" and "b64decode e raw = Inr b"
    and "upload_raises e = None" and "remove_raises e = None"
    and "attendance_insert_raises e = None" and "workers_select_raises e = None"
    and "\<not> contains ''NO_WORKER'' (verify_ppe_with_gemini e raw)"
  shows "fst (verify e wid img s) =
     (let r = verify_ppe_with_gemini e raw;
          status = (if contains ''PPE_OK'' r then ''PRESENT'' else ''ABSENT'');
          missing = (if contains ''PPE_OK'' r then [] else strip (replace r ''PPE_MISSING:'' []))
      in ([(''status'', JStr status),
           (''worker_name'', JStr (case filter (\<lambda>w. Some (wr_worker_id w) = wid) (workers s) of
                [] \<Rightarrow> ''Worker'' | w # _ \<Rightarrow> wr_name w)),
           (''missing'', JStr missing)], 200))"
   and "workers (snd (verify e wid img s)) = workers s"
   and "attendance (snd (verify e wid img s)) = attendance s @
     [(let r = verify_ppe_with_gemini e raw in
       \<lparr>worker_id = wid,
        attendance_status = (if contains ''PPE_OK'' r then ''PRESENT'' else ''ABSENT''),
        ppe_status = (if contains ''PPE_OK'' r then ''PASSED'' else ''FAILED''),
        ppe_missing_items = (if contains ''PPE_OK'' r then [] else strip (replace r ''PPE_MISSING:'' [])),
        ppe_image_url = None, date = today e, created_at = now e\<rparr>)]"
  using assms by (simp_all add: verify_def external_defs Let_def)

lemma manual_mark_ok:
  assumes "attendance_insert_raises e = None"
  shows "manual_mark e wid st d s =
    (([(''status'', JStr ''SUCCESS'')], 200),
     s\<lparr>attendance := attendance s @
       [\<lparr>worker_id = wid,
         attendance_status = (case st of None \<Rightarrow> ''PRESENT'' | Some t \<Rightarrow> t),
         ppe_status = ''ADMIN_OVERRIDE'',
         ppe_missing_items = ''Marked '' @ (case st of None \<Rightarrow> ''PRESENT'' | Some t \<Rightarrow> t) @ '' by Admin'',
         ppe_image_url = None,
         date = (case d of None \<Rightarrow> today e | Some x \<Rightarrow> x), created_at = now e\<rparr>]\<rparr>)"
  using assms by (simp add: manual_mark_def external_defs Let_def)

text \<open>
  C10, as the code has it. Neither \<open>verify\<close> nor \<open>manual_mark\<close> ever answers HTTP
  404. When the image decodes, no external call raises and the classifier's reply is
  conclusive (no \<open>NO_WORKER\<close>), \<open>verify\<close> for a \<open>worker_id\<close> that matches no row
  of the workers table answers HTTP 200 with the status and the display name
  \<open>Worker\<close>, and appends the attendance row; \<open>manual_mark\<close> answers SUCCESS and
  appends its row without looking at the workers table at all. If every stored row is
  strictly older than the new one, then in every list of the date's rows ascending by
  \<open>created_at\<close>, whatever the order of equal timestamps, the new row is the last of
  this id, so the daily aggregation maps the id to the status just written. The numbers
  \<open>present\<close> and \<open>absent\<close> of the response count the ids mapped to exactly PRESENT,
  respectively exactly ABSENT: a row of \<open>verify\<close> is always counted in one of them; a
  row of \<open>manual_mark\<close> is counted in \<open>present\<close> exactly when its status is PRESENT,
  in \<open>absent\<close> exactly when it is ABSENT, and in neither for any other status, which
  \<open>manual_mark\<close> stores all the same. \<open>total_workers\<close> is still the length of the
  unchanged workers table.
\<close>

theorem unregistered_worker_is_recorded_and_counted:
  "snd (fst (verify e wid img s)) \<noteq> 404 \<and>
   snd (fst (manual_mark e wid st d s)) \<noteq> 404 \<and>
   (image_payload img = Inr raw \<and> b64decode e raw = Inr b \<and>
    upload_raises e = None \<and> remove_raises e = None \<and>
    attendance_insert_raises e = None \<and> workers_select_raises e = None \<and>
    attendance_select_raises e = None \<and>
    \<not> contains ''NO_WORKER'' (verify_ppe_with_gemini e raw) \<and>
    list_all (\<lambda>w. Some (wr_worker_id w) \<noteq> wid) (workers s) \<and>
    list_all (\<lambda>r. created_at r < now e) (attendance s) \<longrightarrow>
      (let r = verify_ppe_with_gemini e raw;
           status = (if contains ''PPE_OK'' r then ''PRESENT'' else ''ABSENT'');
           res = verify e wid img s;
           rows = filter (\<lambda>r. date r = today e) (attendance (snd res));
           m = latest_status_map (sort_key created_at (sort_key (tie_order e) rows)) []
       in snd (fst res) = 200 \<and>
          status_of (fst res) = Some (JStr status) \<and>
          map_of (fst (fst res)) ''worker_name'' = Some (JStr ''Worker'') \<and>
          workers (snd res) = workers s \<and>
          attendance (snd res) = attendance s @
            [\<lparr>worker_id = wid, attendance_status = status,
              ppe_status = (if contains ''PPE_OK'' r then ''PASSED'' else ''FAILED''),
              ppe_missing_items =
                (if contains ''PPE_OK'' r then [] else strip (replace r ''PPE_MISSING:'' [])),
              ppe_image_url = None, date = today e, created_at = now e\<rparr>] \<and>
          (\<forall>logs. sorted (map created_at logs) \<and> mset logs = mset rows \<longrightarrow>
             map_of (latest_status_map logs []) wid = Some status) \<and>
          map_of m wid = Some status \<and>
          (status = ''PRESENT'' \<or> status = ''ABSENT'') \<and>
          1 \<le> card {w. map_of m w = Some status} \<and>
          fst (get_stats e None (snd res)) =
            ([(''present'', JInt (int (card {w. map_of m w = Some ''PRESENT''}))),
              (''absent'', JInt (int (card {w. map_of m w = Some ''ABSENT''}))),
              (''total_workers'', JInt (int (length (workers s)))),
              (''date'', JStr (today e))], 200))) \<and>
   (attendance_insert_raises e = None \<and> workers_select_raises e = None \<and>
    attendance_select_raises e = None \<and>
    list_all (\<lambda>r. created_at r < now e) (attendance s) \<longrightarrow>
      (let status = (case st of None \<Rightarrow> ''PRESENT'' | Some t \<Rightarrow> t);
           date_str = (case d of None \<Rightarrow> today e | Some x \<Rightarrow> x);
           res = manual_mark e wid st d s;
           rows = filter (\<lambda>r. date r = date_str) (attendance (snd res));
           m = latest_status_map (sort_key created_at (sort_key (tie_order e) rows)) []
       in fst res = ([(''status'', JStr ''SUCCESS'')], 200) \<and>
          workers (snd res) = workers s \<and>
          attendance (snd res) = attendance s @
            [\<lparr>worker_id = wid, attendance_status = status, ppe_status = ''ADMIN_OVERRIDE'',
              ppe_missing_items = ''Marked '' @ status @ '' by Admin'',
              ppe_image_url = None, date = date_str, created_at = now e\<rparr>] \<and>
          (\<forall>logs. sorted (map created_at logs) \<and> mset logs = mset rows \<longrightarrow>
             map_of (latest_status_map logs []) wid = Some status) \<and>
          map_of m wid = Some status \<and>
          (wid \<in> {w. map_of m w = Some ''PRESENT''}) = (status = ''PRESENT'') \<and>
          (wid \<in> {w. map_of m w = Some ''ABSENT''}) = (status = ''ABSENT'') \<and>
          fst (get_stats e (Some date_str) (snd res)) =
            ([(''present'', JInt (int (card {w. map_of m w = Some ''PRESENT''}))),
              (''absent'', JInt (int (card {w. map_of m w = Some ''ABSENT''}))),
              (''total_workers'', JInt (int (length (workers s)))),
              (''date'', JStr date_str)], 200)))"
proof -
  have v: "(let r = verify_ppe_with_gemini e raw;
           status = (if contains ''PPE_OK'' r then ''PRESENT'' else ''ABSENT'');
           res = verify e wid img s;
           rows = filter (\<lambda>r. date r = today e) (attendance (snd res));
           m = latest_status_map (sort_key created_at (sort_key (tie_order e) rows)) []
       in snd (fst res) = 200 \<and>
          status_of (fst res) = Some (JStr status) \<and>
          map_of (fst (fst res)) ''worker_name'' = Some (JStr ''Worker'') \<and>
          workers (snd res) = workers s \<and>
          attendance (snd res) = attendance s @
            [\<lparr>worker_id = wid, attendance_status = status,
              ppe_status = (if contains ''PPE_OK'' r then ''PASSED'' else ''FAILED''),
              ppe_missing_items =
                (if contains ''PPE_OK'' r then [] else strip (replace r ''PPE_MISSING:'' [])),
              ppe_image_url = None, date = today e, created_at = now e\<rparr>] \<and>
          (\<forall>logs. sorted (map created_at logs) \<and> mset logs = mset rows \<longrightarrow>
             map_of (latest_status_map logs []) wid = Some status) \<and>
          map_of m wid = Some status \<and>
          (status = ''PRESENT'' \<or> status = ''ABSENT'') \<and>
          1 \<le> card {w. map_of m w = Some status} \<and>
          fst (get_stats e None (snd res)) =
            ([(''present'', JInt (int (card {w. map_of m w = Some ''PRESENT''}))),
              (''absent'', JInt (int (card {w. map_of m w = Some ''ABSENT''}))),
              (''total_workers'', JInt (int (length (workers s)))),
              (''date'', JStr (today e))], 200))"
    if h: "image_payload img = Inr raw" "b64decode e raw = Inr b"
      "upload_raises e = None" "remove_raises e = None"
      "attendance_insert_raises e = None" "workers_select_raises e = None"
      "attendance_select_raises e = None"
      "\<not> contains ''NO_WORKER'' (verify_ppe_with_gemini e raw)"
      "list_all (\<lambda>w. Some (wr_worker_id w) \<noteq> wid) (workers s)"
      "list_all (\<lambda>r. created_at r < now e) (attendance s)"
  proof -
    define r where "r = verify_ppe_with_gemini e raw"
    define status where "status = (if contains ''PPE_OK'' r then ''PRESENT'' else ''ABSENT'')"
    define x where "x = \<lparr>worker_id = wid, attendance_status = status,
        ppe_status = (if contains ''PPE_OK'' r then ''PASSED'' else ''FAILED''),
        ppe_missing_items = (if contains ''PPE_OK'' r then [] else strip (replace r ''PPE_MISSING:'' [])),
        ppe_image_url = None, date = today e, created_at = now e\<rparr>"
    define res where "res = verify e wid img s"
    define rows where "rows = filter (\<lambda>r. date r = today e) (attendance (snd res))"
    define m where "m = latest_status_map (sort_key created_at (sort_key (tie_order e) rows)) []"
    have nw: "filter (\<lambda>w. Some (wr_worker_id w) = wid) (workers s) = []"
      using h(9) by (simp add: filter_empty_conv list_all_iff)
    have lt: "\<forall>y\<in>set (attendance s). created_at y < created_at x"
      using h(10) by (simp add: list_all_iff x_def)
    note vc = verify_conclusive [OF h(1,2,3,4,5,6,8), of wid s, folded r_def]
    have wk: "workers (snd res) = workers s" using vc(2) by (simp add: res_def)
    have att: "attendance (snd res) = attendance s @ [x]"
      using vc(3) by (simp add: x_def status_def res_def Let_def)
    have resp: "fst res =
        ([(''status'', JStr status), (''worker_name'', JStr ''Worker''),
          (''missing'', JStr (ppe_missing_items x))], 200)"
      using vc(1) by (simp add: nw x_def status_def res_def Let_def)
    have dx: "date x = today e" and sx: "attendance_status x = status"
      and wx: "worker_id x = wid" by (simp_all add: x_def)
    have rows: "rows = filter (\<lambda>r. date r = date x) (attendance s @ [x])"
      by (simp only: rows_def att dx)
    have every: "map_of (latest_status_map logs []) wid = Some status"
      if "sorted (map created_at logs) \<and> mset logs = mset rows" for logs
      using newest_row_wins [of logs x "attendance s"] that lt by (simp add: rows wx sx)
    have mw: "map_of m wid = Some status"
      unfolding m_def by (rule every) simp
    have two: "status = ''PRESENT'' \<or> status = ''ABSENT''" by (simp add: status_def)
    have gs: "fst (get_stats e None (snd res)) =
            ([(''present'', JInt (int (card {w. map_of m w = Some ''PRESENT''}))),
              (''absent'', JInt (int (card {w. map_of m w = Some ''ABSENT''}))),
              (''total_workers'', JInt (int (length (workers s)))),
              (''date'', JStr (today e))], 200)"
      using get_stats_counts [OF h(7,6), of None "snd res"]
      by (simp add: Let_def wk m_def rows_def)
    have 1: "snd (fst res) = 200" "status_of (fst res) = Some (JStr status)"
      "map_of (fst (fst res)) ''worker_name'' = Some (JStr ''Worker'')"
      by (simp_all add: resp status_of_def)
    have 2: "attendance (snd res) = attendance s @
            [\<lparr>worker_id = wid, attendance_status = status,
              ppe_status = (if contains ''PPE_OK'' r then ''PASSED'' else ''FAILED''),
              ppe_missing_items =
                (if contains ''PPE_OK'' r then [] else strip (replace r ''PPE_MISSING:'' [])),
              ppe_image_url = None, date = today e, created_at = now e\<rparr>]"
      by (simp only: att x_def)
    from 1 wk 2 every mw two card_status_pos [OF mw] gs
    show ?thesis
      unfolding Let_def r_def [symmetric] status_def [symmetric] res_def [symmetric]
        rows_def [symmetric] m_def [symmetric]
      by blast
  qed
  have mm: "(let status = (case st of None \<Rightarrow> ''PRESENT'' | Some t \<Rightarrow> t);
           date_str = (case d of None \<Rightarrow> today e | Some x \<Rightarrow> x);
           res = manual_mark e wid st d s;
           rows = filter (\<lambda>r. date r = date_str) (attendance (snd res));
           m = latest_status_map (sort_key created_at (sort_key (tie_order e) rows)) []
       in fst res = ([(''status'', JStr ''SUCCESS'')], 200) \<and>
          workers (snd res) = workers s \<and>
          attendance (snd res) = attendance s @
            [\<lparr>worker_id = wid, attendance_status = status, ppe_status = ''ADMIN_OVERRIDE'',
              ppe_missing_items = ''Marked '' @ status @ '' by Admin'',
              ppe_image_url = None, date = date_str, created_at = now e\<rparr>] \<and>
          (\<forall>logs. sorted (map created_at logs) \<and> mset logs = mset rows \<longrightarrow>
             map_of (latest_status_map logs []) wid = Some status) \<and>
          map_of m wid = Some status \<and>
          (wid \<in> {w. map_of m w = Some ''PRESENT''}) = (status = ''PRESENT'') \<and>
          (wid \<in> {w. map_of m w = Some ''ABSENT''}) = (status = ''ABSENT'') \<and>
          fst (get_stats e (Some date_str) (snd res)) =
            ([(''present'', JInt (int (card {w. map_of m w = Some ''PRESENT''}))),
              (''absent'', JInt (int (card {w. map_of m w = Some ''ABSENT''}))),
              (''total_workers'', JInt (int (length (workers s)))),
              (''date'', JStr date_str)], 200))"
    if h: "attendance_insert_raises e = None" "workers_select_raises e = None"
      "attendance_select_raises e = None"
      "list_all (\<lambda>r. created_at r < now e) (attendance s)"
  proof -
    define status where "status = (case st of None \<Rightarrow> ''PRESENT'' | Some t \<Rightarrow> t)"
    define date_str where "date_str = (case d of None \<Rightarrow> today e | Some x \<Rightarrow> x)"
    define x where "x = \<lparr>worker_id = wid, attendance_status = status,
        ppe_status = ''ADMIN_OVERRIDE'',
        ppe_missing_items = ''Marked '' @ status @ '' by Admin'',
        ppe_image_url = None, date = date_str, created_at = now e\<rparr>"
    define res where "res = manual_mark e wid st d s"
    define rows where "rows = filter (\<lambda>r. date r = date_str) (attendance (snd res))"
    define m where "m = latest_status_map (sort_key created_at (sort_key (tie_order e) rows)) []"
    have lt: "\<forall>y\<in>set (attendance s). created_at y < created_at x"
      using h(4) by (simp add: list_all_iff x_def)
    have res: "res =
        (([(''status'', JStr ''SUCCESS'')], 200), s\<lparr>attendance := attendance s @ [x]\<rparr>)"
      using manual_mark_ok [OF h(1), of wid st d s]
      by (simp add: x_def status_def date_str_def res_def)
    have 1: "fst res = ([(''status'', JStr ''SUCCESS'')], 200)"
      and wk: "workers (snd res) = workers s"
      and att: "attendance (snd res) = attendance s @ [x]"
      by (simp_all add: res)
    have dx: "date x = date_str" and sx: "attendance_status x = status"
      and wx: "worker_id x = wid"
      by (simp_all add: x_def)
    have rows: "rows = filter (\<lambda>r. date r = date x) (attendance s @ [x])"
      by (simp only: rows_def att dx)
    have every: "map_of (latest_status_map logs []) wid = Some status"
      if "sorted (map created_at logs) \<and> mset logs = mset rows" for logs
      using newest_row_wins [of logs x "attendance s"] that lt by (simp add: rows wx sx)
    have mw: "map_of m wid = Some status"
      unfolding m_def by (rule every) simp
    have inp: "(wid \<in> {w. map_of m w = Some ''PRESENT''}) = (status = ''PRESENT'')"
      and ina: "(wid \<in> {w. map_of m w = Some ''ABSENT''}) = (status = ''ABSENT'')"
      using mw by auto
    have gs: "fst (get_stats e (Some date_str) (snd res)) =
            ([(''present'', JInt (int (card {w. map_of m w = Some ''PRESENT''}))),
              (''absent'', JInt (int (card {w. map_of m w = Some ''ABSENT''}))),
              (''total_workers'', JInt (int (length (workers s)))),
              (''date'', JStr date_str)], 200)"
      using get_stats_counts [OF h(3,2), of "Some date_str" "snd res"]
      by (simp add: Let_def wk m_def rows_def)
    have 2: "attendance (snd res) = attendance s @
            [\<lparr>worker_id = wid, attendance_status = status, ppe_status = ''ADMIN_OVERRIDE'',
              ppe_missing_items = ''Marked '' @ status @ '' by Admin'',
              ppe_image_url = None, date = date_str, created_at = now e\<rparr>]"
      by (simp only: att x_def)
    from 1 wk 2 every mw inp ina gs
    show ?thesis
      unfolding Let_def status_def [symmetric] date_str_def [symmetric] res_def [symmetric]
        rows_def [symmetric] m_def [symmetric]
      by blast
  qed
  from never_404(1) [of e wid img s] never_404(2) [of e wid st d s] v mm
  show ?thesis by blast
qed

text \<open>
  The theorem for the id 9999 on a registry that holds only worker 1001, whose one
  attendance row is of time 3, with the clock at 7: the automatic path with the reply
  \<open>PPE_OK\<close>, and the admin path with status ABSENT.
\<close>

theorem unregistered_worker_witness:
  "image_payload (Some ''data:image/jpeg;base64,QUJD'') = Inr ''QUJD'' \<and>
   b64decode env_ok ''QUJD'' = Inr [65, 66, 67] \<and>
   upload_raises env_ok = None \<and> remove_raises env_ok = None \<and>
   attendance_insert_raises env_ok = None \<and> workers_select_raises env_ok = None \<and>
   attendance_select_raises env_ok = None \<and>
   \<not> contains ''NO_WORKER'' (verify_ppe_with_gemini env_ok ''QUJD'') \<and>
   list_all (\<lambda>w. Some (wr_worker_id w) \<noteq> Some ''9999'') (workers state_one) \<and>
   list_all (\<lambda>r. created_at r < now env_ok) (attendance state_one) \<and>
   fst (verify env_ok (Some ''9999'') (Some ''data:image/jpeg;base64,QUJD'') state_one) =
     ([(''status'', JStr ''PRESENT''), (''worker_name'', JStr ''Worker''),
       (''missing'', JStr [])], 200) \<and>
   map_of (fst (fst (verify env_ok (Some ''9999'') (Some ''data:image/jpeg;base64,QUJD'')
     state_one))) ''worker_name'' = Some (JStr ''Worker'') \<and>
   fst (get_stats env_ok None
     (snd (verify env_ok (Some ''9999'') (Some ''data:image/jpeg;base64,QUJD'') state_one))) =
     ([(''present'', JInt 2), (''absent'', JInt 0), (''total_workers'', JInt 1),
       (''date'', JStr ''2026-01-15'')], 200) \<and>
   fst (manual_mark env_ok (Some ''9999'') (Some ''ABSENT'') None state_one) =
     ([(''status'', JStr ''SUCCESS'')], 200) \<and>
   sorted (map created_at
     [sample_row ''1001'' ''PRESENT'' ''2026-01-15'' 3,
      \<lparr>worker_id = Some ''9999'', attendance_status = ''ABSENT'',
       ppe_status = ''ADMIN_OVERRIDE'', ppe_missing_items = ''Marked ABSENT by Admin'',
       ppe_image_url = None, date = ''2026-01-15'', created_at = 7\<rparr>]) \<and>
   map_of (latest_status_map
     [sample_row ''1001'' ''PRESENT'' ''2026-01-15'' 3,
      \<lparr>worker_id = Some ''9999'', attendance_status = ''ABSENT'',
       ppe_status = ''ADMIN_OVERRIDE'', ppe_missing_items = ''Marked ABSENT by Admin'',
       ppe_image_url = None, date = ''2026-01-15'', created_at = 7\<rparr>] [])
     (Some ''9999'') = Some ''ABSENT'' \<and>
   fst (get_stats env_ok (Some ''2026-01-15'')
     (snd (manual_mark env_ok (Some ''9999'') (Some ''ABSENT'') None state_one))) =
     ([(''present'', JInt 1), (''absent'', JInt 1), (''total_workers'', JInt 1),
       (''date'', JStr ''2026-01-15'')], 200)"
proof -
  let ?r1 = "sample_row ''1001'' ''PRESENT'' ''2026-01-15'' 3"
  let ?rx = "\<lparr>worker_id = Some ''9999'', attendance_status = ''ABSENT'',
       ppe_status = ''ADMIN_OVERRIDE'', ppe_missing_items = ''Marked ABSENT by Admin'',
       ppe_image_url = None, date = ''2026-01-15'', created_at = 7\<rparr>"
  have h: "image_payload (Some ''data:image/jpeg;base64,QUJD'') = Inr ''QUJD''"
    "b64decode env_ok ''QUJD'' = Inr [65, 66, 67]"
    "upload_raises env_ok = None" "remove_raises env_ok = None"
    "attendance_insert_raises env_ok = None" "workers_select_raises env_ok = None"
    "attendance_select_raises env_ok = None"
    "\<not> contains ''NO_WORKER'' (verify_ppe_with_gemini env_ok ''QUJD'')"
    "list_all (\<lambda>w. Some (wr_worker_id w) \<noteq> Some ''9999'') (workers state_one)"
    "list_all (\<lambda>r. created_at r < now env_ok) (attendance state_one)"
    by code_simp+
  note t = unregistered_worker_is_recorded_and_counted
    [of env_ok "Some ''9999''" "Some ''data:image/jpeg;base64,QUJD''" state_one
        "Some ''ABSENT''" None "''QUJD''" "[65, 66, 67]", unfolded Let_def option.case]
  from t h have 1: "map_of (fst (fst (verify env_ok (Some ''9999'')
      (Some ''data:image/jpeg;base64,QUJD'') state_one))) ''worker_name'' = Some (JStr ''Worker'')"
    by blast
  from t h have 2: "fst (manual_mark env_ok (Some ''9999'') (Some ''ABSENT'') None state_one) =
     ([(''status'', JStr ''SUCCESS'')], 200)"
    by blast
  from t h have a: "\<forall>logs. sorted (map created_at logs) \<and>
      mset logs = mset (filter (\<lambda>r. date r = today env_ok)
        (attendance (snd (manual_mark env_ok (Some ''9999'') (Some ''ABSENT'') None state_one))))
      \<longrightarrow> map_of (latest_status_map logs []) (Some ''9999'') = Some ''ABSENT''"
    by blast
  have rows: "filter (\<lambda>r. date r = today env_ok)
        (attendance (snd (manual_mark env_ok (Some ''9999'') (Some ''ABSENT'') None state_one))) =
      [?r1, ?rx]"
    by code_simp
  have srt: "sorted (map created_at [?r1, ?rx])"
    by (simp add: sample_row_def)
  from a [rule_format, of "[?r1, ?rx]"] srt rows
  have 4: "map_of (latest_status_map [?r1, ?rx] []) (Some ''9999'') = Some ''ABSENT''"
    by (simp only: simp_thms)
  have 3: "fst (verify env_ok (Some ''9999'') (Some ''data:image/jpeg;base64,QUJD'') state_one) =
     ([(''status'', JStr ''PRESENT''), (''worker_name'', JStr ''Worker''),
       (''missing'', JStr [])], 200)"
    "fst (get_stats env_ok None
     (snd (verify env_ok (Some ''9999'') (Some ''data:image/jpeg;base64,QUJD'') state_one))) =
     ([(''present'', JInt 2), (''absent'', JInt 0), (''total_workers'', JInt 1),
       (''date'', JStr ''2026-01-15'')], 200)"
    "fst (get_stats env_ok (Some ''2026-01-15'')
     (snd (manual_mark env_ok (Some ''9999'') (Some ''ABSENT'') None state_one))) =
     ([(''present'', JInt 1), (''absent'', JInt 1), (''total_workers'', JInt 1),
       (''date'', JStr ''2026-01-15'')], 200)"
    by code_simp+
  from h 1 2 3 4 srt show ?thesis by blast
qed

text \<open>
  The claim as stated fails for the admin path: \<open>manual_mark\<close> takes any status. Marking
  the unregistered id 9999 as LATE is answered SUCCESS and the row is stored, but the daily
  aggregation counts the id neither as present nor as absent: its response is what it was
  before the row was written.
\<close>

theorem manual_mark_other_status_not_counted:
  "fst (manual_mark env_ok (Some ''9999'') (Some ''LATE'') None state_one) =
     ([(''status'', JStr ''SUCCESS'')], 200) \<and>
   attendance (snd (manual_mark env_ok (Some ''9999'') (Some ''LATE'') None state_one)) =
     [sample_row ''1001'' ''PRESENT'' ''2026-01-15'' 3,
      \<lparr>worker_id = Some ''9999'', attendance_status = ''LATE'',
       ppe_status = ''ADMIN_OVERRIDE'', ppe_missing_items = ''Marked LATE by Admin'',
       ppe_image_url = None, date = ''2026-01-15'', created_at = 7\<rparr>] \<and>
   fst (get_stats env_ok (Some ''2026-01-15'') state_one) =
     ([(''present'', JInt 1), (''absent'', JInt 0), (''total_workers'', JInt 1),
       (''date'', JStr ''2026-01-15'')], 200) \<and>
   fst (get_stats env_ok (Some ''2026-01-15'')
     (snd (manual_mark env_ok (Some ''9999'') (Some ''LATE'') None state_one))) =
     ([(''present'', JInt 1), (''absent'', JInt 0), (''total_workers'', JInt 1),
       (''date'', JStr ''2026-01-15'')], 200)"
  by code_simp

section \<open>Worker registration: the next id (C4)\<close>

lemma of_char_digit_char: "d < 10 \<Longrightarrow> (of_char (digit_char d) :: nat) = 48 + d"
  by (simp add: digit_char_def)

lemma is_digit_digit_char: "d < 10 \<Longrightarrow> is_digit (digit_char d)"
  by (simp add: is_digit_def of_char_digit_char)

lemma digit_val_digit_char: "d < 10 \<Longrightarrow> digit_val (digit_char d) = d"
  by (simp add: digit_val_def of_char_digit_char)

lemma is_digit_not_int_space: "is_digit c \<Longrightarrow> \<not> is_int_space c"
  by (auto simp add: is_digit_def is_int_space_def Let_def)

lemma is_digit_not_sign: "is_digit c \<Longrightarrow> c \<noteq> CHR ''-'' \<and> c \<noteq> CHR ''+''"
  by (auto simp add: is_digit_def Let_def)

lemma digits_acc_all_digits:
  "list_all is_digit ds \<Longrightarrow>
     digits_acc acc ds = Some (foldl (\<lambda>a c. 10 * a + digit_val c) acc ds)"
  by (induction acc ds rule: digits_acc.induct) auto

lemma str_nat_digits: "list_all is_digit (str_nat n)"
  by (induction n rule: str_nat.induct) (subst str_nat.simps, simp add: is_digit_digit_char)

lemma str_nat_value: "foldl (\<lambda>a c. 10 * a + digit_val c) 0 (str_nat n) = n"
  by (induction n rule: str_nat.induct) (subst str_nat.simps, simp add: digit_val_digit_char)

lemma str_nat_nonempty: "str_nat n \<noteq> []"
  by (subst str_nat.simps) simp

lemma py_digits_str_nat: "py_digits (str_nat n) = Some n"
proof -
  obtain c cs where cs: "str_nat n = c # cs"
    using str_nat_nonempty [of n] by (cases "str_nat n") auto
  from str_nat_digits [of n] cs have d: "is_digit c" "list_all is_digit cs" by simp_all
  have "py_digits (str_nat n) = digits_acc (digit_val c) cs"
    using d(1) by (simp add: py_digits_def cs)
  also have "\<dots> = Some (foldl (\<lambda>a c. 10 * a + digit_val c) (digit_val c) cs)"
    by (rule digits_acc_all_digits [OF d(2)])
  also have "foldl (\<lambda>a c. 10 * a + digit_val c) (digit_val c) cs =
      foldl (\<lambda>a c. 10 * a + digit_val c) 0 (str_nat n)"
    by (simp add: cs)
  finally show ?thesis by (simp add: str_nat_value)
qed

lemma int_strip_id:
  assumes "t \<noteq> []" and "\<not> is_int_space (hd t)" and "\<not> is_int_space (last t)"
  shows "rev (dropWhile is_int_space (rev (dropWhile is_int_space t))) = t"
proof -
  have 1: "dropWhile is_int_space t = t"
    using assms(2) by (simp add: dropWhile_eq_self_iff)
  have "dropWhile is_int_space (rev t) = rev t"
    using assms(1,3) by (simp add: dropWhile_eq_self_iff hd_rev)
  with 1 show ?thesis by simp
qed

lemma str_nat_ends: "is_digit (hd (str_nat n))" "is_digit (last (str_nat n))"
  using str_nat_digits [of n] str_nat_nonempty [of n]
  by (auto simp add: list_all_iff)

lemma py_int_str_int: "py_int (str_int i) = Some i"
proof (cases "i < 0")
  case True
  define t where "t = str_nat (nat (- i))"
  have ne: "t \<noteq> []" by (simp add: t_def str_nat_nonempty)
  have sp: "\<not> is_int_space (CHR ''-'')" by (simp add: is_int_space_def)
  have "\<not> is_int_space (last t)"
    unfolding t_def by (rule is_digit_not_int_space [OF str_nat_ends(2)])
  then have "rev (dropWhile is_int_space (rev (dropWhile is_int_space (CHR ''-'' # t)))) =
      CHR ''-'' # t"
    using ne sp by (intro int_strip_id) simp_all
  then have "py_int (CHR ''-'' # t) = map_option (\<lambda>n. - int n) (py_digits t)"
    by (simp add: py_int_def)
  then show ?thesis using True by (simp add: str_int_def t_def py_digits_str_nat)
next
  case False
  define t where "t = str_nat (nat i)"
  obtain c cs where cs: "t = c # cs"
    using str_nat_nonempty [of "nat i"] by (cases t) (auto simp add: t_def)
  have d: "is_digit c" using str_nat_ends(1) [of "nat i"] by (simp add: t_def [symmetric] cs)
  have "rev (dropWhile is_int_space (rev (dropWhile is_int_space t))) = t"
    unfolding t_def
    by (intro int_strip_id str_nat_nonempty is_digit_not_int_space str_nat_ends)
  then have "py_int t = map_option int (py_digits t)"
    using is_digit_not_sign [OF d] by (simp add: py_int_def cs)
  then show ?thesis using False by (simp add: str_int_def t_def py_digits_str_nat)
qed

lemma collect_ids_map_filter:
  "collect_ids data ids = ids @ List.map_filter (\<lambda>w. py_int (wr_worker_id w)) data"
  by (induction data arbitrary: ids) (auto split: option.splits)

lemma max_list_Max:
  assumes "xs \<noteq> []"
  shows "max_list xs = Max (set xs)"
proof (cases xs)
  case Nil
  with assms show ?thesis by simp
next
  case (Cons x ys)
  then show ?thesis using Max.set_eq_fold [of x ys] by simp
qed

lemma next_id_parsed:
  "next_id data = (if parsed_ids data = {} then 1001 else Max (parsed_ids data) + 1)"
  by (cases "List.map_filter (\<lambda>w. py_int (wr_worker_id w)) data = []")
    (auto simp add: next_id_def parsed_ids_def collect_ids_map_filter max_list_Max Let_def)

lemma mem_parsed_ids:
  "(i \<in> parsed_ids data) = (\<exists>w. w \<in> set data \<and> py_int (wr_worker_id w) = Some i)"
  by (induction data) (auto simp add: parsed_ids_def split: option.splits)

lemma parsed_ids_append:
  "parsed_ids (data @ [\<lparr>wr_worker_id = str_int n, wr_name = nm\<rparr>]) = insert n (parsed_ids data)"
  by (simp add: parsed_ids_def map_filter_def py_int_str_int)

lemma finite_parsed_ids: "finite (parsed_ids data)"
  by (simp add: parsed_ids_def)

lemma next_id_append:
  "next_id (data @ [\<lparr>wr_worker_id = str_int (next_id data), wr_name = nm\<rparr>]) = next_id data + 1"
proof (cases "parsed_ids data = {}")
  case True
  then show ?thesis by (simp add: next_id_parsed [of "data @ _"] parsed_ids_append next_id_parsed [of data])
next
  case False
  have "Max (insert (Max (parsed_ids data) + 1) (parsed_ids data)) = Max (parsed_ids data) + 1"
    using False finite_parsed_ids [of data] by (simp add: max_def)
  then show ?thesis
    using False by (simp add: next_id_parsed [of "data @ _"] parsed_ids_append next_id_parsed [of data])
qed

lemma add_worker_ok:
  assumes "nm \<noteq> []" and "workers_select_raises e = None" and "workers_insert_raises e = None"
  shows "add_worker e (Some nm) s =
    (([(''status'', JStr ''ok''), (''worker_id'', JStr (str_int (next_id (workers s))))], 200),
     s\<lparr>workers := workers s @
       [\<lparr>wr_worker_id = str_int (next_id (workers s)), wr_name = nm\<rparr>]\<rparr>)"
  using assms by (simp add: add_worker_def workers_select_all_def workers_insert_def)

lemma register_all_from:
  assumes "workers_select_raises e = None" and "workers_insert_raises e = None"
  shows "list_all (\<lambda>nm. nm \<noteq> []) names \<Longrightarrow>
     register_all e names s =
       (map (\<lambda>(k, nm). ([(''status'', JStr ''ok''),
               (''worker_id'', JStr (str_int (next_id (workers s) - int j + int k)))], 200))
          (List.enumerate j names),
        s\<lparr>workers := workers s @
          map (\<lambda>(k, nm). \<lparr>wr_worker_id = str_int (next_id (workers s) - int j + int k),
                 wr_name = nm\<rparr>) (List.enumerate j names)\<rparr>)"
proof (induction names arbitrary: s j)
  case Nil
  then show ?case by simp
next
  case (Cons nm nms)
  define s1 where "s1 = s\<lparr>workers := workers s @
       [\<lparr>wr_worker_id = str_int (next_id (workers s)), wr_name = nm\<rparr>]\<rparr>"
  from Cons.prems have ne: "nm \<noteq> []" and rest: "list_all (\<lambda>nm. nm \<noteq> []) nms" by simp_all
  have step: "add_worker e (Some nm) s =
      (([(''status'', JStr ''ok''), (''worker_id'', JStr (str_int (next_id (workers s))))], 200), s1)"
    unfolding s1_def by (rule add_worker_ok [OF ne assms])
  have nx: "next_id (workers s1) = next_id (workers s) + 1"
    by (simp add: s1_def next_id_append)
  have w1: "workers s1 = workers s @
       [\<lparr>wr_worker_id = str_int (next_id (workers s)), wr_name = nm\<rparr>]"
    by (simp add: s1_def)
  have upd: "s1\<lparr>workers := ws\<rparr> = s\<lparr>workers := ws\<rparr>" for ws
    by (simp add: s1_def)
  show ?case
    using Cons.IH [OF rest, of s1 "Suc j", unfolded nx]
    by (simp add: step w1 upd)
qed

lemma map_enumerate_nth:
  "map (\<lambda>(k, x). f k x) (List.enumerate 0 xs) = map (\<lambda>k. f k (xs ! k)) [0..<length xs]"
  by (rule nth_equalityI) (simp_all add: nth_enumerate_eq)

lemma register_all_empty:
  assumes "workers_select_raises e = None" and "workers_insert_raises e = None"
    and "list_all (\<lambda>nm. nm \<noteq> []) names" and "workers s = []"
  shows "fst (register_all e names s) =
       map (\<lambda>k. ([(''status'', JStr ''ok''),
               (''worker_id'', JStr (str_int (1001 + int k)))], 200)) [0..<length names]"
    and "workers (snd (register_all e names s)) =
       map (\<lambda>k. \<lparr>wr_worker_id = str_int (1001 + int k), wr_name = names ! k\<rparr>)
         [0..<length names]"
proof -
  have n: "next_id (workers s) = 1001" by (simp add: assms(4) next_id_def)
  note r = register_all_from [OF assms(1,2,3), of s 0, unfolded n]
  show "fst (register_all e names s) =
       map (\<lambda>k. ([(''status'', JStr ''ok''),
               (''worker_id'', JStr (str_int (1001 + int k)))], 200)) [0..<length names]"
    by (simp add: r map_enumerate_nth)
  show "workers (snd (register_all e names s)) =
       map (\<lambda>k. \<lparr>wr_worker_id = str_int (1001 + int k), wr_name = names ! k\<rparr>)
         [0..<length names]"
    by (simp add: r assms(4) map_enumerate_nth)
qed

lemma next_id_sample:
  "next_id [\<lparr>wr_worker_id = ''1001'', wr_name = a\<rparr>, \<lparr>wr_worker_id = ''abc'', wr_name = b\<rparr>,
            \<lparr>wr_worker_id = ''1005'', wr_name = c\<rparr>] = 1006"
proof -
  have "py_int ''1001'' = Some 1001" "py_int ''abc'' = None" "py_int ''1005'' = Some 1005"
    by code_simp+
  then show ?thesis by (simp add: next_id_def)
qed

lemma str_int_sample: "str_int 1001 = ''1001''" "str_int 1006 = ''1006''"
  by code_simp+

text \<open>
  C4. \<open>int\<close> reads back what \<open>str\<close> writes. The integers \<open>parsed_ids\<close> are exactly
  those that some existing \<open>worker_id\<close> parses to; an id that does not parse adds nothing
  and raises nothing. The next id is 1001 when no id parses (in particular on an empty
  table) and the greatest parsed id plus one otherwise. With a non-empty name, when neither
  query raises, \<open>add_worker\<close> answers HTTP 200 with the decimal string of that next id and
  appends the worker row with this id and that name, whatever the table holds. So one
  request per name, starting from an empty table, is answered with the ids 1001, 1002,
  ... in order, and leaves the table with exactly these rows; and from the ids 1001,
  \<open>abc\<close> and 1005 the next id is 1006.
\<close>

theorem add_worker_assigns_next_id:
  "py_int (str_int i) = Some i \<and>
   (n \<in> parsed_ids data) = (\<exists>w. w \<in> set data \<and> py_int (wr_worker_id w) = Some n) \<and>
   next_id data = (if parsed_ids data = {} then 1001 else Max (parsed_ids data) + 1) \<and>
   (nm \<noteq> [] \<and> workers_select_raises e = None \<and> workers_insert_raises e = None \<longrightarrow>
      add_worker e (Some nm) s =
        (([(''status'', JStr ''ok''),
           (''worker_id'', JStr (str_int (next_id (workers s))))], 200),
         s\<lparr>workers := workers s @
           [\<lparr>wr_worker_id = str_int (next_id (workers s)), wr_name = nm\<rparr>]\<rparr>)) \<and>
   (list_all (\<lambda>nm. nm \<noteq> []) names \<and> workers s = [] \<and>
    workers_select_raises e = None \<and> workers_insert_raises e = None \<longrightarrow>
      fst (register_all e names s) =
        map (\<lambda>k. ([(''status'', JStr ''ok''),
                (''worker_id'', JStr (str_int (1001 + int k)))], 200)) [0..<length names] \<and>
      workers (snd (register_all e names s)) =
        map (\<lambda>k. \<lparr>wr_worker_id = str_int (1001 + int k), wr_name = names ! k\<rparr>)
          [0..<length names]) \<and>
   next_id [\<lparr>wr_worker_id = ''1001'', wr_name = a\<rparr>, \<lparr>wr_worker_id = ''abc'', wr_name = b\<rparr>,
            \<lparr>wr_worker_id = ''1005'', wr_name = c\<rparr>] = 1006 \<and>
   str_int 1001 = ''1001'' \<and> str_int 1006 = ''1006''"
  using py_int_str_int [of i] mem_parsed_ids [of n data] next_id_parsed [of data]
    add_worker_ok [of nm e s] register_all_empty [of e names s] next_id_sample [of a b c]
    str_int_sample
  by blast

text \<open>
  The theorem on three registrations into the empty table, and on one registration into
  a table whose ids are 1001, \<open>abc\<close> and 1005.
\<close>

theorem add_worker_assigns_next_id_witness:
  "''Kiran'' \<noteq> [] \<and> list_all (\<lambda>nm. nm \<noteq> []) [''Asha'', ''Ravi'', ''Meena''] \<and>
   workers state_empty = [] \<and>
   workers_select_raises env_ok = None \<and> workers_insert_raises env_ok = None \<and>
   add_worker env_ok (Some ''Kiran'') (state_empty\<lparr>workers := workers_mixed\<rparr>) =
     (([(''status'', JStr ''ok''), (''worker_id'', JStr ''1006'')], 200),
      state_empty\<lparr>workers := workers_mixed @
        [\<lparr>wr_worker_id = ''1006'', wr_name = ''Kiran''\<rparr>]\<rparr>) \<and>
   fst (register_all env_ok [''Asha'', ''Ravi'', ''Meena''] state_empty) =
     [([(''status'', JStr ''ok''), (''worker_id'', JStr ''1001'')], 200),
      ([(''status'', JStr ''ok''), (''worker_id'', JStr ''1002'')], 200),
      ([(''status'', JStr ''ok''), (''worker_id'', JStr ''1003'')], 200)] \<and>
   workers (snd (register_all env_ok [''Asha'', ''Ravi'', ''Meena''] state_empty)) =
     [\<lparr>wr_worker_id = ''1001'', wr_name = ''Asha''\<rparr>,
      \<lparr>wr_worker_id = ''1002'', wr_name = ''Ravi''\<rparr>,
      \<lparr>wr_worker_id = ''1003'', wr_name = ''Meena''\<rparr>]"
proof -
  have h: "''Kiran'' \<noteq> []" "list_all (\<lambda>nm. nm \<noteq> []) [''Asha'', ''Ravi'', ''Meena'']"
    "workers state_empty = []"
    "workers_select_raises env_ok = None" "workers_insert_raises env_ok = None"
    by (simp_all add: env_ok_def state_empty_def)
  have ev: "str_int (next_id workers_mixed) = ''1006''"
    "map (\<lambda>k. ([(''status'', JStr ''ok''),
                (''worker_id'', JStr (str_int (1001 + int k)))], 200 :: nat))
       [0..<length [''Asha'', ''Ravi'', ''Meena'']] =
     [([(''status'', JStr ''ok''), (''worker_id'', JStr ''1001'')], 200),
      ([(''status'', JStr ''ok''), (''worker_id'', JStr ''1002'')], 200),
      ([(''status'', JStr ''ok''), (''worker_id'', JStr ''1003'')], 200)]"
    "map (\<lambda>k. \<lparr>wr_worker_id = str_int (1001 + int k),
                wr_name = [''Asha'', ''Ravi'', ''Meena''] ! k\<rparr>)
       [0..<length [''Asha'', ''Ravi'', ''Meena'']] =
     [\<lparr>wr_worker_id = ''1001'', wr_name = ''Asha''\<rparr>,
      \<lparr>wr_worker_id = ''1002'', wr_name = ''Ravi''\<rparr>,
      \<lparr>wr_worker_id = ''1003'', wr_name = ''Meena''\<rparr>]"
    by code_simp+
  from add_worker_assigns_next_id
    [of 0 0 "[]" "''Kiran''" env_ok "state_empty\<lparr>workers := workers_mixed\<rparr>" "[]"] h
  have 1: "add_worker env_ok (Some ''Kiran'') (state_empty\<lparr>workers := workers_mixed\<rparr>) =
     (([(''status'', JStr ''ok''), (''worker_id'', JStr ''1006'')], 200),
      state_empty\<lparr>workers := workers_mixed @
        [\<lparr>wr_worker_id = ''1006'', wr_name = ''Kiran''\<rparr>]\<rparr>)"
    by (simp add: ev(1))
  from add_worker_assigns_next_id
    [of 0 0 "[]" "''Kiran''" env_ok state_empty "[''Asha'', ''Ravi'', ''Meena'']"] h
  have 2: "fst (register_all env_ok [''Asha'', ''Ravi'', ''Meena''] state_empty) =
     [([(''status'', JStr ''ok''), (''worker_id'', JStr ''1001'')], 200),
      ([(''status'', JStr ''ok''), (''worker_id'', JStr ''1002'')], 200),
      ([(''status'', JStr ''ok''), (''worker_id'', JStr ''1003'')], 200)]"
    and 3: "workers (snd (register_all env_ok [''Asha'', ''Ravi'', ''Meena''] state_empty)) =
     [\<lparr>wr_worker_id = ''1001'', wr_name = ''Asha''\<rparr>,
      \<lparr>wr_worker_id = ''1002'', wr_name = ''Ravi''\<rparr>,
      \<lparr>wr_worker_id = ''1003'', wr_name = ''Meena''\<rparr>]"
    unfolding ev(2,3) [symmetric] by blast+
  from h 1 2 3 show ?thesis by blast
qed

end
